theory Spec2Isabelle
  imports Main "HOL-Library.Sublist" "HOL-Library.AList" "HOL-Library.List_Lexorder"
    "HOL-Library.Char_ord"
begin

section \<open>Acceleration-model assembly of Tudat (createAccelerationModels)\<close>

text \<open>
  The development embeds the factory functions of
  \<^verbatim>\<open>Tudat/SimulationSetup/createAccelerationModels.cpp\<close> (the file with
  \<^verbatim>\<open>createAccelerationModelsMap\<close>), and, further down, two functions of the later
  \<^verbatim>\<open>PropagationSetup/createAccelerationModels.cpp\<close>, which the repository holds
  next to it.

  Conventions of the embedding.
  \<^item> A \<^verbatim>\<open>boost::shared_ptr< Body >\<close> is a handle (a natural number) into a store
    of Body objects; the null pointer of a \<^verbatim>\<open>shared_ptr\<close> that may be empty (the central
    body) is \<open>None\<close>.
  \<^item> A \<^verbatim>\<open>boost::function< double( ) >\<close> is a function \<open>unit \<Rightarrow> 'd\<close>; the type \<open>'d\<close>
    stands for \<^verbatim>\<open>double\<close> and only its addition is used.
  \<^item> Every \<^verbatim>\<open>throw\<close> is a constructor of \<open>error\<close>, named after the place that
    raises it; the exception leaves the function, so the result is \<open>Inl\<close> of it.
  \<^item> A function that changes a Body returns the store with its result, also when it
    raises: the change made before the exception stays.
  \<^item> Where C++ leaves open in which order the arguments of a call are evaluated and
    the order shows in the result, the order is an argument of the definition
    (\<open>argument_order\<close>), and a statement holds for both orders or names the order.
\<close>

subsection \<open>Data model\<close>

text \<open>
  The enumeration \<^verbatim>\<open>AvailableAcceleration\<close>. Its header, accelerationModelTypes.h, is
  absent; the enumerators are those the two files name.
\<close>

datatype AvailableAcceleration =
    central_gravity
  | spherical_harmonic_gravity
  | mutual_spherical_harmonic_gravity
  | aerodynamic
  | cannon_ball_radiation_pressure
  | thrust_acceleration

text \<open>
  \<^verbatim>\<open>AccelerationSettings\<close> is a base class holding the tag \<^verbatim>\<open>accelerationType_\<close>;
  \<^verbatim>\<open>SphericalHarmonicAccelerationSettings\<close> derives from it, fixes the tag and adds
  \<^verbatim>\<open>maximumDegree_\<close> and \<^verbatim>\<open>maximumOrder_\<close>. The constructor of the datatype is the
  dynamic class of the object, which \<^verbatim>\<open>dynamic_pointer_cast\<close> inspects.
\<close>

datatype AccelerationSettings =
    AccelerationSettings AvailableAcceleration
  | SphericalHarmonicAccelerationSettings int int

fun accelerationType :: "AccelerationSettings \<Rightarrow> AvailableAcceleration" where
  "accelerationType (AccelerationSettings t) = t"
| "accelerationType (SphericalHarmonicAccelerationSettings maximumDegree maximumOrder) =
     spherical_harmonic_gravity"

fun cast_SphericalHarmonicAccelerationSettings ::
  "AccelerationSettings \<Rightarrow> (int \<times> int) option" where
  "cast_SphericalHarmonicAccelerationSettings (SphericalHarmonicAccelerationSettings n m) =
     Some (n, m)"
| "cast_SphericalHarmonicAccelerationSettings (AccelerationSettings t) = None"

text \<open>
  A gravity field is a \<^verbatim>\<open>GravityFieldModel\<close> (gravitational parameter) or an object of
  the derived class \<^verbatim>\<open>SphericalHarmonicsGravityField\<close> (gravitational parameter, reference
  radius, name of the body-fixed frame of the coefficients), which a
  \<^verbatim>\<open>dynamic_pointer_cast\<close> tells apart. The assembly reads gravity fields and never
  changes them, so a bound field is represented by its value.
\<close>

datatype 'd SphericalHarmonicsGravityField =
  SphericalHarmonicsGravityField
    (sh_getGravitationalParameter: 'd)
    (getReferenceRadius: 'd)
    (getFixedReferenceFrame: string)

datatype 'd GravityFieldModel =
    GravityFieldModel 'd
  | SphericalHarmonics "'d SphericalHarmonicsGravityField"

fun getGravitationalParameter :: "'d GravityFieldModel \<Rightarrow> 'd" where
  "getGravitationalParameter (GravityFieldModel mu) = mu"
| "getGravitationalParameter (SphericalHarmonics field) = sh_getGravitationalParameter field"

fun cast_SphericalHarmonicsGravityField ::
  "'d GravityFieldModel option \<Rightarrow> 'd SphericalHarmonicsGravityField option" where
  "cast_SphericalHarmonicsGravityField None = None"
| "cast_SphericalHarmonicsGravityField (Some (GravityFieldModel mu)) = None"
| "cast_SphericalHarmonicsGravityField (Some (SphericalHarmonics field)) = Some field"

datatype AtmosphereModel = AtmosphereModel

datatype BodyShapeModel = BodyShapeModel

datatype AerodynamicCoefficientInterface =
  AerodynamicCoefficientInterface
    (getAreCoefficientsInAerodynamicFrame: bool)
    (getAreCoefficientsInNegativeAxisDirection: bool)

datatype RadiationPressureInterface = RadiationPressureInterface nat

datatype RotationalEphemeris =
  RotationalEphemeris (getTargetFrameOrientation: string)

text \<open>
  The capabilities of a Body that the factory functions query. A null pointer is \<open>None\<close>.
  \<open>flightConditions\<close> holds the handle of the FlightConditions object attached to the body.
\<close>

record 'd Body =
  gravityFieldModel :: "'d GravityFieldModel option"
  atmosphereModel :: "AtmosphereModel option"
  shapeModel :: "BodyShapeModel option"
  aerodynamicCoefficientInterface :: "AerodynamicCoefficientInterface option"
  radiationPressureInterfaces :: "string \<rightharpoonup> RadiationPressureInterface"
  flightConditions :: "nat option"
  rotationalEphemeris :: "RotationalEphemeris option"

text \<open>
  The store: the Body objects by handle, and the FlightConditions objects created so far,
  each recorded with the arguments of the call that created it. The handle of a
  FlightConditions object is its position in that list.
\<close>

record 'd environment =
  bodies :: "nat \<Rightarrow> 'd Body"
  flightConditionsObjects :: "(nat \<times> nat \<times> string \<times> string) list"

datatype error =
    GravityFieldModelNotSet string string
  | AccelerationSettingsInconsistent string string
  | SphericalHarmonicGravityFieldNotSet string string
  | NoAerodynamicCoefficients string
  | NoAtmosphereModel string
  | NoShapeModel string
  | NoRadiationPressureInterface string string
  | ThirdBodySphericalHarmonicNotYet
  | AccelerationModelNotRecognized AvailableAcceleration string string
  | CentralBodyNotFound string string
  | UndergoingBodyNotFound string
  | ExertingBodyNotFound string string
  | out_of_range
  | NullPointerDereference
  | NoRotationModel string string
  | RotationModelIncompatible string string string string
  | MultipleAerodynamicAndThrust

text \<open>
  The text of each \<^verbatim>\<open>std::runtime_error\<close>, concatenated as the source does. The
  argument \<open>lexical_cast\<close> prints an enumerator as \<^verbatim>\<open>boost::lexical_cast\<close> does (its
  number, which the absent header fixes). \<open>out_of_range\<close> is what \<^verbatim>\<open>std::map::at\<close>
  throws and \<open>NullPointerDereference\<close> is the use of an empty \<^verbatim>\<open>shared_ptr\<close>; their
  texts are not the program's.
\<close>

fun what :: "(AvailableAcceleration \<Rightarrow> string) \<Rightarrow> error \<Rightarrow> string" where
  "what lexical_cast (GravityFieldModelNotSet nameOfBodyExertingAcceleration
       nameOfBodyUndergoingAcceleration) =
     ''Error, gravity field model not set when making central '' @
     '' gravitational acceleration of '' @ nameOfBodyExertingAcceleration @ '' on '' @
     nameOfBodyUndergoingAcceleration"
| "what lexical_cast (AccelerationSettingsInconsistent nameOfBodyExertingAcceleration
       nameOfBodyUndergoingAcceleration) =
     ''Error, acceleration settings inconsistent '' @
     '' making sh gravitational acceleration of '' @ nameOfBodyExertingAcceleration @
     '' on '' @ nameOfBodyUndergoingAcceleration"
| "what lexical_cast (SphericalHarmonicGravityFieldNotSet nameOfBodyExertingAcceleration
       nameOfBodyUndergoingAcceleration) =
     ''Error, spherical harmonic gravity field model not set when '' @
     '' making sh gravitational acceleration of '' @ nameOfBodyExertingAcceleration @
     '' on '' @ nameOfBodyUndergoingAcceleration"
| "what lexical_cast (NoAerodynamicCoefficients nameOfBodyUndergoingAcceleration) =
     ''Error when making aerodynamic acceleration, body '' @
     nameOfBodyUndergoingAcceleration @ ''has no aerodynamic coefficients.''"
| "what lexical_cast (NoAtmosphereModel nameOfBodyExertingAcceleration) =
     ''Error when making aerodynamic acceleration, central body '' @
     nameOfBodyExertingAcceleration @ '' has no atmosphere model.''"
| "what lexical_cast (NoShapeModel nameOfBodyExertingAcceleration) =
     ''Error when making aerodynamic acceleration, central body '' @
     nameOfBodyExertingAcceleration @ '' has no shape model.''"
| "what lexical_cast (NoRadiationPressureInterface nameOfBodyUndergoingAcceleration
       nameOfBodyExertingAcceleration) =
     ''Error when making radiation pressure, no radiation pressure interface found  in '' @
     nameOfBodyUndergoingAcceleration @ '' for body '' @ nameOfBodyExertingAcceleration"
| "what lexical_cast ThirdBodySphericalHarmonicNotYet =
     ''Error, cannot yet make third body spherical harmonic acceleration.''"
| "what lexical_cast (AccelerationModelNotRecognized typeOfAcceleration
       nameOfBodyExertingAcceleration nameOfBodyUndergoingAcceleration) =
     ''Error, acceleration model '' @ lexical_cast typeOfAcceleration @
     '' not recognized when making acceleration model of'' @
     nameOfBodyExertingAcceleration @ '' on '' @ nameOfBodyUndergoingAcceleration"
| "what lexical_cast (CentralBodyNotFound currentCentralBodyName
       bodyUndergoingAcceleration) =
     ''Error, could not find non-inertial central body '' @ currentCentralBodyName @
     '' of '' @ bodyUndergoingAcceleration @ '' when making acceleration model.''"
| "what lexical_cast (UndergoingBodyNotFound bodyUndergoingAcceleration) =
     ''Error when making acceleration models, requested forces'' @ ''acting on body '' @
     bodyUndergoingAcceleration @ '', but no such body found in map of bodies''"
| "what lexical_cast (ExertingBodyNotFound bodyUndergoingAcceleration
       bodyExertingAcceleration) =
     ''Error when making acceleration models, requested forces '' @ ''acting on body '' @
     bodyUndergoingAcceleration @ '' due to body '' @ bodyExertingAcceleration @
     '', but no such body found in map of bodies''"
| "what lexical_cast (NoRotationModel nameOfBodyUndergoingAcceleration
       nameOfBodyExertingAcceleration) =
     ''Warning when making spherical harmonic acceleration on body '' @
     nameOfBodyUndergoingAcceleration @ '', no rotation model found for '' @
     nameOfBodyExertingAcceleration"
| "what lexical_cast (RotationModelIncompatible nameOfBodyUndergoingAcceleration
       nameOfBodyExertingAcceleration targetFrame fixedFrame) =
     ''Warning when making spherical harmonic acceleration on body '' @
     nameOfBodyUndergoingAcceleration @ '', rotation model found for '' @
     nameOfBodyExertingAcceleration @ '' is incompatible, frames are: '' @
     targetFrame @ '' and '' @ fixedFrame"
| "what lexical_cast MultipleAerodynamicAndThrust =
     ''Error when ordering accelerations, cannot yet handle multple aerodynamic and thrust accelerations''"
| "what lexical_cast out_of_range = ''map::at''"
| "what lexical_cast NullPointerDereference = []"

text \<open>
  The classes of failure of the specification (its section on error handling), assigned
  to the places that raise: a body that lacks an environment model is a missing
  capability, a name absent from a map is a lookup failure, a frame check that fails is a
  frame mismatch, and a request that the settings make impossible is a configuration
  error.
\<close>

datatype error_class =
    ConfigurationError
  | MissingCapabilityError
  | LookupError
  | FrameMismatchError
  | ProgramCrash

fun error_class_of :: "error \<Rightarrow> error_class" where
  "error_class_of (GravityFieldModelNotSet e u) = MissingCapabilityError"
| "error_class_of (AccelerationSettingsInconsistent e u) = ConfigurationError"
| "error_class_of (SphericalHarmonicGravityFieldNotSet e u) = MissingCapabilityError"
| "error_class_of (NoAerodynamicCoefficients u) = MissingCapabilityError"
| "error_class_of (NoAtmosphereModel e) = MissingCapabilityError"
| "error_class_of (NoShapeModel e) = MissingCapabilityError"
| "error_class_of (NoRadiationPressureInterface u e) = MissingCapabilityError"
| "error_class_of ThirdBodySphericalHarmonicNotYet = ConfigurationError"
| "error_class_of (AccelerationModelNotRecognized t e u) = ConfigurationError"
| "error_class_of (CentralBodyNotFound c u) = LookupError"
| "error_class_of (UndergoingBodyNotFound u) = LookupError"
| "error_class_of (ExertingBodyNotFound u e) = LookupError"
| "error_class_of out_of_range = LookupError"
| "error_class_of NullPointerDereference = ProgramCrash"
| "error_class_of (NoRotationModel u e) = MissingCapabilityError"
| "error_class_of (RotationModelIncompatible u e t f) = FrameMismatchError"
| "error_class_of MultipleAerodynamicAndThrust = ConfigurationError"

text \<open>
  The acceleration models. Each constructor lists what the source binds into the object,
  in the order of the constructor call: a bound \<^verbatim>\<open>Body::getPosition\<close> or
  \<^verbatim>\<open>Body::getBodyMass\<close> is the handle of the body, a bound member of an interface is the
  interface, a bound member of FlightConditions is the handle of the flight conditions.
\<close>

datatype 'd CentralGravitationalAccelerationModel3d =
  CentralGravitationalAccelerationModel3d
    (positionOfBodySubjectToAcceleration: "nat option")
    (gravitationalParameterFunction: "unit \<Rightarrow> 'd")
    (positionOfBodyExertingAcceleration: nat)

datatype 'd SphericalHarmonicsGravitationalAccelerationModelXd =
  SphericalHarmonicsGravitationalAccelerationModelXd
    (sh_positionOfBodySubjectToAcceleration: nat)
    (sh_gravitationalParameterFunction: "unit \<Rightarrow> 'd")
    (sh_referenceRadius: 'd)
    (sh_cosineCoefficients: "'d SphericalHarmonicsGravityField \<times> int \<times> int")
    (sh_sineCoefficients: "'d SphericalHarmonicsGravityField \<times> int \<times> int")
    (sh_positionOfBodyExertingAcceleration: nat)

datatype 'd ThirdBodyCentralGravityAcceleration =
  ThirdBodyCentralGravityAcceleration
    (accelerationModelForBodyUndergoingAcceleration:
       "'d CentralGravitationalAccelerationModel3d")
    (accelerationModelForCentralBody: "'d CentralGravitationalAccelerationModel3d")

datatype AerodynamicAcceleration =
  AerodynamicAcceleration
    (coefficientFunction: AerodynamicCoefficientInterface)
    (densityFunction: nat)
    (speedFunction: nat)
    (massFunction: nat)
    (referenceAreaFunction: AerodynamicCoefficientInterface)
    (areCoefficientsInNegativeDirection: bool)

datatype CannonBallRadiationPressureAcceleration =
  CannonBallRadiationPressureAcceleration
    (sourcePositionFunction: nat)
    (acceleratedBodyPositionFunction: nat)
    (radiationPressureFunction: RadiationPressureInterface)
    (radiationPressureCoefficientFunction: RadiationPressureInterface)
    (areaFunction: RadiationPressureInterface)
    (cb_massFunction: nat)

text \<open>
  The result of \<^verbatim>\<open>createAccelerationModel\<close> is a pointer to the base class
  \<^verbatim>\<open>AccelerationModel< Eigen::Vector3d >\<close>; the constructor is the class of the object
  behind it.
\<close>

datatype 'd AccelerationModel =
    CentralGravity "'d CentralGravitationalAccelerationModel3d"
  | SphericalHarmonicsGravity "'d SphericalHarmonicsGravitationalAccelerationModelXd"
  | ThirdBodyCentralGravity "'d ThirdBodyCentralGravityAcceleration"
  | Aerodynamic AerodynamicAcceleration
  | CannonBallRadiationPressure CannonBallRadiationPressureAcceleration

subsection \<open>The factory functions\<close>

definition isFrameInertial :: "string \<Rightarrow> bool" where
  "isFrameInertial frame =
     (if frame = ''SSB'' \<or> frame = '''' \<or> frame = ''Inertial'' then True else False)"

definition evaluateDoubleFunctions :: "(unit \<Rightarrow> 'd::plus) \<Rightarrow> (unit \<Rightarrow> 'd) \<Rightarrow> 'd" where
  "evaluateDoubleFunctions function1 function2 = function1 () + function2 ()"

text \<open>
  \<^verbatim>\<open>createCentralGravityAcceleratioModel\<close>. The body undergoing the acceleration is
  dereferenced only when \<^verbatim>\<open>useCentralBodyFixedFrame\<close> is set (the \<^verbatim>\<open>||\<close> of the source
  does not evaluate its second operand otherwise), so an empty pointer passes through
  there.
\<close>

definition createCentralGravityAcceleratioModel ::
  "'d::plus environment \<Rightarrow> nat option \<Rightarrow> nat \<Rightarrow> string \<Rightarrow> string \<Rightarrow> bool \<Rightarrow>
     error + 'd CentralGravitationalAccelerationModel3d" where
  "createCentralGravityAcceleratioModel env bodyUndergoingAcceleration
       bodyExertingAcceleration nameOfBodyUndergoingAcceleration
       nameOfBodyExertingAcceleration useCentralBodyFixedFrame =
     (case gravityFieldModel (bodies env bodyExertingAcceleration) of
        None \<Rightarrow>
          Inl (GravityFieldModelNotSet nameOfBodyExertingAcceleration
                 nameOfBodyUndergoingAcceleration)
      | Some exertingField \<Rightarrow>
          (if \<not> useCentralBodyFixedFrame then
             Inr (CentralGravitationalAccelerationModel3d bodyUndergoingAcceleration
                    (\<lambda>_. getGravitationalParameter exertingField)
                    bodyExertingAcceleration)
           else
             (case bodyUndergoingAcceleration of
                None \<Rightarrow> Inl NullPointerDereference
              | Some undergoing \<Rightarrow>
                  (case gravityFieldModel (bodies env undergoing) of
                     None \<Rightarrow>
                       Inr (CentralGravitationalAccelerationModel3d
                              bodyUndergoingAcceleration
                              (\<lambda>_. getGravitationalParameter exertingField)
                              bodyExertingAcceleration)
                   | Some undergoingField \<Rightarrow>
                       Inr (CentralGravitationalAccelerationModel3d
                              bodyUndergoingAcceleration
                              (\<lambda>_. evaluateDoubleFunctions
                                      (\<lambda>_. getGravitationalParameter exertingField)
                                      (\<lambda>_. getGravitationalParameter undergoingField))
                              bodyExertingAcceleration)))))"

definition createSphericalHarmonicsGravityAcceleration ::
  "'d::plus environment \<Rightarrow> nat \<Rightarrow> nat \<Rightarrow> string \<Rightarrow> string \<Rightarrow> AccelerationSettings \<Rightarrow>
     bool \<Rightarrow> error + 'd SphericalHarmonicsGravitationalAccelerationModelXd" where
  "createSphericalHarmonicsGravityAcceleration env bodyUndergoingAcceleration
       bodyExertingAcceleration nameOfBodyUndergoingAcceleration
       nameOfBodyExertingAcceleration accelerationSettings useCentralBodyFixedFrame =
     (case cast_SphericalHarmonicAccelerationSettings accelerationSettings of
        None \<Rightarrow>
          Inl (AccelerationSettingsInconsistent nameOfBodyExertingAcceleration
                 nameOfBodyUndergoingAcceleration)
      | Some (maximumDegree, maximumOrder) \<Rightarrow>
          (case cast_SphericalHarmonicsGravityField
                  (gravityFieldModel (bodies env bodyExertingAcceleration)) of
             None \<Rightarrow>
               Inl (SphericalHarmonicGravityFieldNotSet nameOfBodyExertingAcceleration
                      nameOfBodyUndergoingAcceleration)
           | Some sphericalHarmonicsGravityField \<Rightarrow>
               Inr (SphericalHarmonicsGravitationalAccelerationModelXd
                      bodyUndergoingAcceleration
                      (if useCentralBodyFixedFrame = False then
                         (\<lambda>_. sh_getGravitationalParameter sphericalHarmonicsGravityField)
                       else
                         (case gravityFieldModel (bodies env bodyUndergoingAcceleration) of
                            None \<Rightarrow>
                              (\<lambda>_. sh_getGravitationalParameter sphericalHarmonicsGravityField)
                          | Some undergoingField \<Rightarrow>
                              (\<lambda>_. evaluateDoubleFunctions
                                      (\<lambda>_. sh_getGravitationalParameter
                                              sphericalHarmonicsGravityField)
                                      (\<lambda>_. getGravitationalParameter undergoingField))))
                      (getReferenceRadius sphericalHarmonicsGravityField)
                      (sphericalHarmonicsGravityField, maximumDegree, maximumOrder)
                      (sphericalHarmonicsGravityField, maximumDegree, maximumOrder)
                      bodyExertingAcceleration)))"

text \<open>
  \<^verbatim>\<open>createThirdBodyCentralGravityAccelerationModel\<close>: the two direct models are the
  arguments of one constructor call, and C++ leaves open which argument is evaluated
  first; compilers differ. The order is the argument \<open>order\<close> of the definition. Both
  builds test the same exerting body, so either both are built or both raise, and the
  order decides whose build raises: the one evaluated first.
\<close>

datatype argument_order = left_to_right | right_to_left

definition createThirdBodyCentralGravityAccelerationModel ::
  "argument_order \<Rightarrow> 'd::plus environment \<Rightarrow> nat \<Rightarrow> nat \<Rightarrow> nat option \<Rightarrow> string \<Rightarrow>
     string \<Rightarrow> string \<Rightarrow> error + 'd ThirdBodyCentralGravityAcceleration" where
  "createThirdBodyCentralGravityAccelerationModel order env bodyUndergoingAcceleration
       bodyExertingAcceleration centralBody nameOfBodyUndergoingAcceleration
       nameOfBodyExertingAcceleration nameOfCentralBody =
     (case order of
        left_to_right \<Rightarrow>
          (case createCentralGravityAcceleratioModel env (Some bodyUndergoingAcceleration)
                  bodyExertingAcceleration nameOfBodyUndergoingAcceleration
                  nameOfBodyExertingAcceleration False of
             Inl err \<Rightarrow> Inl err
           | Inr forUndergoing \<Rightarrow>
               (case createCentralGravityAcceleratioModel env centralBody
                       bodyExertingAcceleration nameOfCentralBody
                       nameOfBodyExertingAcceleration False of
                  Inl err \<Rightarrow> Inl err
                | Inr forCentral \<Rightarrow>
                    Inr (ThirdBodyCentralGravityAcceleration forUndergoing forCentral)))
      | right_to_left \<Rightarrow>
          (case createCentralGravityAcceleratioModel env centralBody
                  bodyExertingAcceleration nameOfCentralBody
                  nameOfBodyExertingAcceleration False of
             Inl err \<Rightarrow> Inl err
           | Inr forCentral \<Rightarrow>
               (case createCentralGravityAcceleratioModel env
                       (Some bodyUndergoingAcceleration) bodyExertingAcceleration
                       nameOfBodyUndergoingAcceleration nameOfBodyExertingAcceleration
                       False of
                  Inl err \<Rightarrow> Inl err
                | Inr forUndergoing \<Rightarrow>
                    Inr (ThirdBodyCentralGravityAcceleration forUndergoing forCentral))))"

text \<open>
  Modelled from the spec: the external flight-conditions factory
  (\<^verbatim>\<open>createFlightConditions\<close> of createFlightConditions.cpp, which is absent). It
  makes a new FlightConditions object for the pair of bodies and touches nothing else.
\<close>

definition createFlightConditions ::
  "'d environment \<Rightarrow> nat \<Rightarrow> nat \<Rightarrow> string \<Rightarrow> string \<Rightarrow> nat \<times> 'd environment" where
  "createFlightConditions env bodyWithFlightConditions centralBody
       nameOfBodyUndergoingAcceleration nameOfBodyExertingAcceleration =
     (length (flightConditionsObjects env),
      env\<lparr>flightConditionsObjects := flightConditionsObjects env @
             [(bodyWithFlightConditions, centralBody, nameOfBodyUndergoingAcceleration,
               nameOfBodyExertingAcceleration)]\<rparr>)"

definition setFlightConditions :: "'d environment \<Rightarrow> nat \<Rightarrow> nat \<Rightarrow> 'd environment" where
  "setFlightConditions env body fc =
     env\<lparr>bodies := (bodies env)(body := (bodies env body)\<lparr>flightConditions := Some fc\<rparr>)\<rparr>"

text \<open>
  \<^verbatim>\<open>createAerodynamicAcceleratioModel\<close>. The source also computes
  \<^verbatim>\<open>toPropagationFrameTransformation\<close> from the flight conditions and the frame of the
  coefficients and then leaves it unused; it is not part of the model built.
\<close>

definition createAerodynamicAcceleratioModel ::
  "'d environment \<Rightarrow> nat \<Rightarrow> nat \<Rightarrow> string \<Rightarrow> string \<Rightarrow>
     (error + AerodynamicAcceleration) \<times> 'd environment" where
  "createAerodynamicAcceleratioModel env bodyUndergoingAcceleration
       bodyExertingAcceleration nameOfBodyUndergoingAcceleration
       nameOfBodyExertingAcceleration =
     (case aerodynamicCoefficientInterface (bodies env bodyUndergoingAcceleration) of
        None \<Rightarrow> (Inl (NoAerodynamicCoefficients nameOfBodyUndergoingAcceleration), env)
      | Some aerodynamicCoefficients \<Rightarrow>
          if atmosphereModel (bodies env bodyExertingAcceleration) = None then
            (Inl (NoAtmosphereModel nameOfBodyExertingAcceleration), env)
          else if shapeModel (bodies env bodyExertingAcceleration) = None then
            (Inl (NoShapeModel nameOfBodyExertingAcceleration), env)
          else
            (case flightConditions (bodies env bodyUndergoingAcceleration) of
               Some bodyFlightConditions \<Rightarrow>
                 (Inr (AerodynamicAcceleration aerodynamicCoefficients
                         bodyFlightConditions bodyFlightConditions
                         bodyUndergoingAcceleration aerodynamicCoefficients
                         (getAreCoefficientsInNegativeAxisDirection
                            aerodynamicCoefficients)),
                  env)
             | None \<Rightarrow>
                 (case createFlightConditions env bodyUndergoingAcceleration
                         bodyExertingAcceleration nameOfBodyUndergoingAcceleration
                         nameOfBodyExertingAcceleration of
                    (created, env1) \<Rightarrow>
                      (Inr (AerodynamicAcceleration aerodynamicCoefficients
                              created created
                              bodyUndergoingAcceleration aerodynamicCoefficients
                              (getAreCoefficientsInNegativeAxisDirection
                                 aerodynamicCoefficients)),
                       setFlightConditions env1 bodyUndergoingAcceleration created))))"

definition createCannonballRadiationPressureAcceleratioModel ::
  "'d environment \<Rightarrow> nat \<Rightarrow> nat \<Rightarrow> string \<Rightarrow> string \<Rightarrow>
     error + CannonBallRadiationPressureAcceleration" where
  "createCannonballRadiationPressureAcceleratioModel env bodyUndergoingAcceleration
       bodyExertingAcceleration nameOfBodyUndergoingAcceleration
       nameOfBodyExertingAcceleration =
     (case radiationPressureInterfaces (bodies env bodyUndergoingAcceleration)
             nameOfBodyExertingAcceleration of
        None \<Rightarrow>
          Inl (NoRadiationPressureInterface nameOfBodyUndergoingAcceleration
                 nameOfBodyExertingAcceleration)
      | Some radiationPressureInterface \<Rightarrow>
          Inr (CannonBallRadiationPressureAcceleration bodyExertingAcceleration
                 bodyUndergoingAcceleration radiationPressureInterface
                 radiationPressureInterface radiationPressureInterface
                 bodyUndergoingAcceleration))"

text \<open>
  \<^verbatim>\<open>createAccelerationModel\<close>: the switch on the tag of the settings. The case
  \<^verbatim>\<open>cannon_ball_radiation_pressure\<close> has no \<^verbatim>\<open>break\<close>: after the cannonball model is
  built, control runs on into \<^verbatim>\<open>default\<close>, which throws.
\<close>

definition createAccelerationModel ::
  "argument_order \<Rightarrow> 'd::plus environment \<Rightarrow> nat \<Rightarrow> nat \<Rightarrow> AccelerationSettings \<Rightarrow> string \<Rightarrow> string \<Rightarrow>
     nat option \<Rightarrow> string \<Rightarrow> (error + 'd AccelerationModel) \<times> 'd environment" where
  "createAccelerationModel order env bodyUndergoingAcceleration bodyExertingAcceleration
       accelerationSettings nameOfBodyUndergoingAcceleration
       nameOfBodyExertingAcceleration centralBody nameOfCentralBody =
     (case accelerationType accelerationSettings of
        central_gravity \<Rightarrow>
          if nameOfCentralBody = nameOfBodyExertingAcceleration \<or>
             isFrameInertial nameOfCentralBody
          then
            (let useCentralBodyFixedFrame =
                   (if nameOfCentralBody = nameOfBodyExertingAcceleration then True
                    else False)
             in (map_sum id CentralGravity
                   (createCentralGravityAcceleratioModel env
                      (Some bodyUndergoingAcceleration) bodyExertingAcceleration
                      nameOfBodyUndergoingAcceleration nameOfBodyExertingAcceleration
                      useCentralBodyFixedFrame),
                 env))
          else
            (map_sum id ThirdBodyCentralGravity
               (createThirdBodyCentralGravityAccelerationModel order env
                  bodyUndergoingAcceleration bodyExertingAcceleration centralBody
                  nameOfBodyUndergoingAcceleration nameOfBodyExertingAcceleration
                  nameOfCentralBody),
             env)
      | spherical_harmonic_gravity \<Rightarrow>
          if nameOfCentralBody = nameOfBodyExertingAcceleration \<or>
             isFrameInertial nameOfCentralBody
          then
            (let useCentralBodyFixedFrame =
                   (if nameOfCentralBody = nameOfBodyExertingAcceleration then True
                    else False)
             in (map_sum id SphericalHarmonicsGravity
                   (createSphericalHarmonicsGravityAcceleration env
                      bodyUndergoingAcceleration bodyExertingAcceleration
                      nameOfBodyUndergoingAcceleration nameOfBodyExertingAcceleration
                      accelerationSettings useCentralBodyFixedFrame),
                 env))
          else (Inl ThirdBodySphericalHarmonicNotYet, env)
      | aerodynamic \<Rightarrow>
          (case createAerodynamicAcceleratioModel env bodyUndergoingAcceleration
                  bodyExertingAcceleration nameOfBodyUndergoingAcceleration
                  nameOfBodyExertingAcceleration of
             (result, env') \<Rightarrow> (map_sum id Aerodynamic result, env'))
      | cannon_ball_radiation_pressure \<Rightarrow>
          (case createCannonballRadiationPressureAcceleratioModel env
                  bodyUndergoingAcceleration bodyExertingAcceleration
                  nameOfBodyUndergoingAcceleration nameOfBodyExertingAcceleration of
             Inl err \<Rightarrow> (Inl err, env)
           | Inr accelerationModelPointer \<Rightarrow>
               (Inl (AccelerationModelNotRecognized
                       (accelerationType accelerationSettings)
                       nameOfBodyExertingAcceleration nameOfBodyUndergoingAcceleration),
                env))
      | _ \<Rightarrow>
          (Inl (AccelerationModelNotRecognized (accelerationType accelerationSettings)
                  nameOfBodyExertingAcceleration nameOfBodyUndergoingAcceleration),
           env))"

subsection \<open>The assembler\<close>

text \<open>
  A \<^verbatim>\<open>std::map\<close> that the source iterates over (\<^verbatim>\<open>SelectedAccelerationMap\<close> and the
  map of one undergoing body) is the list of its entries in the order of the iteration;
  \<^verbatim>\<open>bodyMap\<close> and \<^verbatim>\<open>centralBodies\<close>, which are only looked up, are partial functions. The
  maps built are association lists: \<^verbatim>\<open>m[ k ] = v\<close> is \<open>AList.update k v m\<close>, and
  \<^verbatim>\<open>m[ k ].push_back( v )\<close> starts from the empty vector when \<open>k\<close> is new.
\<close>

type_synonym 'd SingleBodyAccelerationMap = "(string \<times> 'd AccelerationModel list) list"

type_synonym 'd AccelerationMap = "(string \<times> 'd SingleBodyAccelerationMap) list"

type_synonym SelectedAccelerationMap =
  "(string \<times> (string \<times> AccelerationSettings list) list) list"

definition push_back_at ::
  "string \<Rightarrow> 'a \<Rightarrow> (string \<times> 'a list) list \<Rightarrow> (string \<times> 'a list) list" where
  "push_back_at k v m =
     AList.update k ((case map_of m k of None \<Rightarrow> [] | Some vs \<Rightarrow> vs) @ [v]) m"

text \<open>
  The innermost loop, over \<^verbatim>\<open>accelerationList\<close>: one model per settings entry, in the
  order of the list as given. The handles are those that \<^verbatim>\<open>bodyMap.at\<close> returns for the
  two names, which the loops around have found in \<^verbatim>\<open>bodyMap\<close>.
\<close>

fun accelerationListLoop ::
  "argument_order \<Rightarrow> 'd::plus environment \<Rightarrow> nat \<Rightarrow> nat \<Rightarrow> string \<Rightarrow> string \<Rightarrow> nat option \<Rightarrow> string \<Rightarrow>
     AccelerationSettings list \<Rightarrow> 'd SingleBodyAccelerationMap \<Rightarrow>
     (error + 'd SingleBodyAccelerationMap) \<times> 'd environment" where
  "accelerationListLoop order env undergoing exerting bodyUndergoingAcceleration
       bodyExertingAcceleration currentCentralBody currentCentralBodyName []
       mapOfAccelerationsForBody =
     (Inr mapOfAccelerationsForBody, env)"
| "accelerationListLoop order env undergoing exerting bodyUndergoingAcceleration
       bodyExertingAcceleration currentCentralBody currentCentralBodyName
       (settings # accelerationList) mapOfAccelerationsForBody =
     (case createAccelerationModel order env undergoing exerting settings
             bodyUndergoingAcceleration bodyExertingAcceleration currentCentralBody
             currentCentralBodyName of
        (Inl err, env') \<Rightarrow> (Inl err, env')
      | (Inr model, env') \<Rightarrow>
          accelerationListLoop order env' undergoing exerting bodyUndergoingAcceleration
            bodyExertingAcceleration currentCentralBody currentCentralBodyName
            accelerationList
            (push_back_at bodyExertingAcceleration model mapOfAccelerationsForBody))"

text \<open>The loop over the bodies exerting an acceleration (\<^verbatim>\<open>body2Iterator\<close>).\<close>

fun body2IteratorLoop ::
  "argument_order \<Rightarrow> 'd::plus environment \<Rightarrow> (string \<rightharpoonup> nat) \<Rightarrow> nat \<Rightarrow> string \<Rightarrow> nat option \<Rightarrow> string \<Rightarrow>
     (string \<times> AccelerationSettings list) list \<Rightarrow> 'd SingleBodyAccelerationMap \<Rightarrow>
     (error + 'd SingleBodyAccelerationMap) \<times> 'd environment" where
  "body2IteratorLoop order env bodyMap undergoing bodyUndergoingAcceleration currentCentralBody
       currentCentralBodyName [] mapOfAccelerationsForBody =
     (Inr mapOfAccelerationsForBody, env)"
| "body2IteratorLoop order env bodyMap undergoing bodyUndergoingAcceleration currentCentralBody
       currentCentralBodyName ((bodyExertingAcceleration, accelerationList) # rest)
       mapOfAccelerationsForBody =
     (case bodyMap bodyExertingAcceleration of
        None \<Rightarrow>
          (Inl (ExertingBodyNotFound bodyUndergoingAcceleration bodyExertingAcceleration),
           env)
      | Some exerting \<Rightarrow>
          (case accelerationListLoop order env undergoing exerting bodyUndergoingAcceleration
                  bodyExertingAcceleration currentCentralBody currentCentralBodyName
                  accelerationList mapOfAccelerationsForBody of
             (Inl err, env') \<Rightarrow> (Inl err, env')
           | (Inr mapOfAccelerationsForBody', env') \<Rightarrow>
               body2IteratorLoop order env' bodyMap undergoing bodyUndergoingAcceleration
                 currentCentralBody currentCentralBodyName rest
                 mapOfAccelerationsForBody'))"

text \<open>
  The loop over the bodies undergoing acceleration (\<^verbatim>\<open>bodyIterator\<close>):
  \<^verbatim>\<open>centralBodies.at\<close> throws \<^verbatim>\<open>std::out_of_range\<close> for a body without a declared
  central body; a central body that is not an inertial frame is looked up, then the
  undergoing body, and only then the models of this body are built.
\<close>

fun bodyIteratorLoop ::
  "argument_order \<Rightarrow> 'd::plus environment \<Rightarrow> (string \<rightharpoonup> nat) \<Rightarrow> (string \<rightharpoonup> string) \<Rightarrow>
     SelectedAccelerationMap \<Rightarrow> 'd AccelerationMap \<Rightarrow>
     (error + 'd AccelerationMap) \<times> 'd environment" where
  "bodyIteratorLoop order env bodyMap centralBodies [] accelerationModelMap =
     (Inr accelerationModelMap, env)"
| "bodyIteratorLoop order env bodyMap centralBodies
       ((bodyUndergoingAcceleration, accelerationsForBody) # rest) accelerationModelMap =
     (case centralBodies bodyUndergoingAcceleration of
        None \<Rightarrow> (Inl out_of_range, env)
      | Some currentCentralBodyName \<Rightarrow>
          (case (if \<not> isFrameInertial currentCentralBodyName then
                   (case bodyMap currentCentralBodyName of
                      None \<Rightarrow>
                        Inl (CentralBodyNotFound currentCentralBodyName
                               bodyUndergoingAcceleration)
                    | Some central \<Rightarrow> Inr (Some central))
                 else Inr None) of
             Inl err \<Rightarrow> (Inl err, env)
           | Inr currentCentralBody \<Rightarrow>
               (case bodyMap bodyUndergoingAcceleration of
                  None \<Rightarrow> (Inl (UndergoingBodyNotFound bodyUndergoingAcceleration), env)
                | Some undergoing \<Rightarrow>
                    (case body2IteratorLoop order env bodyMap undergoing
                            bodyUndergoingAcceleration currentCentralBody
                            currentCentralBodyName accelerationsForBody [] of
                       (Inl err, env') \<Rightarrow> (Inl err, env')
                     | (Inr mapOfAccelerationsForBody, env') \<Rightarrow>
                         bodyIteratorLoop order env' bodyMap centralBodies rest
                           (AList.update bodyUndergoingAcceleration
                              mapOfAccelerationsForBody accelerationModelMap)))))"

definition createAccelerationModelsMap ::
  "argument_order \<Rightarrow> 'd::plus environment \<Rightarrow> (string \<rightharpoonup> nat) \<Rightarrow> SelectedAccelerationMap \<Rightarrow>
     (string \<rightharpoonup> string) \<Rightarrow> (error + 'd AccelerationMap) \<times> 'd environment" where
  "createAccelerationModelsMap order env bodyMap selectedAccelerationPerBody
       centralBodies =
     bodyIteratorLoop order env bodyMap centralBodies selectedAccelerationPerBody []"

subsection \<open>Functions of the later PropagationSetup/createAccelerationModels.cpp\<close>

text \<open>
  The later file builds the spherical-harmonic model with the rotation of the exerting
  body and checks the frames first. Its class
  \<^verbatim>\<open>SphericalHarmonicsGravitationalAccelerationModel\<close> takes two more arguments than the
  earlier one: the bound \<^verbatim>\<open>Body::getCurrentRotationToGlobalFrame\<close> of the exerting body
  and the flag.
\<close>

datatype 'd SphericalHarmonicsGravitationalAccelerationModel =
  SphericalHarmonicsGravitationalAccelerationModel
    (shr_positionOfBodySubjectToAcceleration: nat)
    (shr_gravitationalParameterFunction: "unit \<Rightarrow> 'd")
    (shr_referenceRadius: 'd)
    (shr_cosineCoefficients: "'d SphericalHarmonicsGravityField \<times> int \<times> int")
    (shr_sineCoefficients: "'d SphericalHarmonicsGravityField \<times> int \<times> int")
    (shr_positionOfBodyExertingAcceleration: nat)
    (shr_rotationFromBodyFixedToIntegrationFrame: nat)
    (shr_isMutualAttractionUsed: bool)

definition createSphericalHarmonicsGravityAcceleration_PropagationSetup ::
  "'d::plus environment \<Rightarrow> nat \<Rightarrow> nat \<Rightarrow> string \<Rightarrow> string \<Rightarrow> AccelerationSettings \<Rightarrow>
     bool \<Rightarrow> error + 'd SphericalHarmonicsGravitationalAccelerationModel" where
  "createSphericalHarmonicsGravityAcceleration_PropagationSetup env
       bodyUndergoingAcceleration bodyExertingAcceleration
       nameOfBodyUndergoingAcceleration nameOfBodyExertingAcceleration
       accelerationSettings useCentralBodyFixedFrame =
     (case cast_SphericalHarmonicAccelerationSettings accelerationSettings of
        None \<Rightarrow>
          Inl (AccelerationSettingsInconsistent nameOfBodyExertingAcceleration
                 nameOfBodyUndergoingAcceleration)
      | Some (maximumDegree, maximumOrder) \<Rightarrow>
          (case cast_SphericalHarmonicsGravityField
                  (gravityFieldModel (bodies env bodyExertingAcceleration)) of
             None \<Rightarrow>
               Inl (SphericalHarmonicGravityFieldNotSet nameOfBodyExertingAcceleration
                      nameOfBodyUndergoingAcceleration)
           | Some sphericalHarmonicsGravityField \<Rightarrow>
               (case rotationalEphemeris (bodies env bodyExertingAcceleration) of
                  None \<Rightarrow>
                    Inl (NoRotationModel nameOfBodyUndergoingAcceleration
                           nameOfBodyExertingAcceleration)
                | Some ephemeris \<Rightarrow>
                    if getTargetFrameOrientation ephemeris \<noteq>
                       getFixedReferenceFrame sphericalHarmonicsGravityField
                    then
                      Inl (RotationModelIncompatible nameOfBodyUndergoingAcceleration
                             nameOfBodyExertingAcceleration
                             (getTargetFrameOrientation ephemeris)
                             (getFixedReferenceFrame sphericalHarmonicsGravityField))
                    else
                      Inr (SphericalHarmonicsGravitationalAccelerationModel
                             bodyUndergoingAcceleration
                             (if useCentralBodyFixedFrame = False then
                                (\<lambda>_. sh_getGravitationalParameter
                                        sphericalHarmonicsGravityField)
                              else
                                (case gravityFieldModel
                                        (bodies env bodyUndergoingAcceleration) of
                                   None \<Rightarrow>
                                     (\<lambda>_. sh_getGravitationalParameter
                                             sphericalHarmonicsGravityField)
                                 | Some undergoingField \<Rightarrow>
                                     (\<lambda>_. evaluateDoubleFunctions
                                             (\<lambda>_. sh_getGravitationalParameter
                                                     sphericalHarmonicsGravityField)
                                             (\<lambda>_. getGravitationalParameter
                                                     undergoingField))))
                             (getReferenceRadius sphericalHarmonicsGravityField)
                             (sphericalHarmonicsGravityField, maximumDegree, maximumOrder)
                             (sphericalHarmonicsGravityField, maximumDegree, maximumOrder)
                             bodyExertingAcceleration bodyExertingAcceleration
                             useCentralBodyFixedFrame))))"

text \<open>
  \<^verbatim>\<open>orderSelectedAccelerationMap\<close>. The indices of the thrust entries and of the
  aerodynamic entries of one list, in increasing order, as the loop over \<open>i\<close> collects
  them.
\<close>

definition thrustAccelerationIndices :: "AccelerationSettings list \<Rightarrow> nat list" where
  "thrustAccelerationIndices accelerationList =
     filter (\<lambda>i. accelerationType (accelerationList ! i) = thrust_acceleration)
       [0..<length accelerationList]"

definition aerodynamicAccelerationIndex :: "AccelerationSettings list \<Rightarrow> nat list" where
  "aerodynamicAccelerationIndex accelerationList =
     filter (\<lambda>i. accelerationType (accelerationList ! i) \<noteq> thrust_acceleration \<and>
                 accelerationType (accelerationList ! i) = aerodynamic)
       [0..<length accelerationList]"

definition iter_swap :: "'a list \<Rightarrow> nat \<Rightarrow> nat \<Rightarrow> 'a list" where
  "iter_swap xs i j = (xs[i := xs ! j])[j := xs ! i]"

text \<open>
  The body of the inner loop: the list of one pair of bodies, put in order. The reads
  \<^verbatim>\<open>at( 0 )\<close> and \<^verbatim>\<open>at( size( ) - 1 )\<close> happen only for vectors that are not empty.
\<close>

definition orderedAccelerationList ::
  "AccelerationSettings list \<Rightarrow> error + AccelerationSettings list" where
  "orderedAccelerationList accelerationList =
     (if length (thrustAccelerationIndices accelerationList) > 0 \<and>
         length (aerodynamicAccelerationIndex accelerationList) > 0
      then
        if last (aerodynamicAccelerationIndex accelerationList) >
           hd (thrustAccelerationIndices accelerationList)
        then
          if length (aerodynamicAccelerationIndex accelerationList) = 1 then
            Inr (iter_swap accelerationList
                   (hd (aerodynamicAccelerationIndex accelerationList))
                   (last (thrustAccelerationIndices accelerationList)))
          else Inl MultipleAerodynamicAndThrust
        else Inr accelerationList
      else Inr accelerationList)"

definition assign_at ::
  "string \<Rightarrow> string \<Rightarrow> 'a \<Rightarrow> (string \<times> (string \<times> 'a) list) list \<Rightarrow>
     (string \<times> (string \<times> 'a) list) list" where
  "assign_at k1 k2 v m =
     AList.update k1 (AList.update k2 v (case map_of m k1 of None \<Rightarrow> [] | Some inner \<Rightarrow> inner)) m"

fun orderBody2IteratorLoop ::
  "string \<Rightarrow> (string \<times> AccelerationSettings list) list \<Rightarrow> SelectedAccelerationMap \<Rightarrow>
     error + SelectedAccelerationMap" where
  "orderBody2IteratorLoop bodyUndergoingAcceleration [] orderedAccelerationsPerBody =
     Inr orderedAccelerationsPerBody"
| "orderBody2IteratorLoop bodyUndergoingAcceleration
       ((bodyExertingAcceleration, accelerationList) # rest) orderedAccelerationsPerBody =
     (case orderedAccelerationList accelerationList of
        Inl err \<Rightarrow> Inl err
      | Inr ordered \<Rightarrow>
          orderBody2IteratorLoop bodyUndergoingAcceleration rest
            (assign_at bodyUndergoingAcceleration bodyExertingAcceleration ordered
               orderedAccelerationsPerBody))"

fun orderBodyIteratorLoop ::
  "SelectedAccelerationMap \<Rightarrow> SelectedAccelerationMap \<Rightarrow> error + SelectedAccelerationMap"
  where
  "orderBodyIteratorLoop [] orderedAccelerationsPerBody = Inr orderedAccelerationsPerBody"
| "orderBodyIteratorLoop ((bodyUndergoingAcceleration, accelerationsForBody) # rest)
       orderedAccelerationsPerBody =
     (case orderBody2IteratorLoop bodyUndergoingAcceleration accelerationsForBody
             orderedAccelerationsPerBody of
        Inl err \<Rightarrow> Inl err
      | Inr orderedAccelerationsPerBody' \<Rightarrow>
          orderBodyIteratorLoop rest orderedAccelerationsPerBody')"

definition orderSelectedAccelerationMap ::
  "SelectedAccelerationMap \<Rightarrow> error + SelectedAccelerationMap" where
  "orderSelectedAccelerationMap selectedAccelerationsPerBody =
     orderBodyIteratorLoop selectedAccelerationsPerBody []"

text \<open>
  Modelled from the spec: the evaluation of a third-body composite
  (\<^verbatim>\<open>ThirdBodyCentralGravityAcceleration\<close> of thirdBodyPerturbation.h, which is absent):
  the direct acceleration on the undergoing body minus the direct acceleration on the
  central body. The evaluation of a direct model, absent as well, is the argument
  \<open>getAcceleration\<close>.
\<close>

definition getAcceleration_ThirdBodyCentralGravityAcceleration ::
  "('d CentralGravitationalAccelerationModel3d \<Rightarrow> 'v::minus) \<Rightarrow>
     'd ThirdBodyCentralGravityAcceleration \<Rightarrow> 'v" where
  "getAcceleration_ThirdBodyCentralGravityAcceleration getAcceleration model =
     getAcceleration (accelerationModelForBodyUndergoingAcceleration model) -
     getAcceleration (accelerationModelForCentralBody model)"

subsection \<open>Notions used in the statements\<close>

text \<open>The entry of a nested map under two keys.\<close>

definition settingsOf ::
  "(string \<times> (string \<times> 'a) list) list \<Rightarrow> string \<Rightarrow> string \<Rightarrow> 'a option" where
  "settingsOf m k1 k2 = (case map_of m k1 of None \<Rightarrow> None | Some inner \<Rightarrow> map_of inner k2)"

text \<open>
  An entry of \<^verbatim>\<open>SelectedAccelerationMap\<close> refers to a name that \<^verbatim>\<open>bodyMap\<close> does not
  hold: the undergoing body, its central body when that is not an inertial frame, or one
  of the exerting bodies.
\<close>

definition entryNameAbsent ::
  "(string \<rightharpoonup> nat) \<Rightarrow> (string \<rightharpoonup> string) \<Rightarrow>
     string \<times> (string \<times> AccelerationSettings list) list \<Rightarrow> bool" where
  "entryNameAbsent bodyMap centralBodies entry =
     (bodyMap (fst entry) = None \<or>
      (\<exists>cn. centralBodies (fst entry) = Some cn \<and> \<not> isFrameInertial cn \<and>
            bodyMap cn = None) \<or>
      (\<exists>pair \<in> set (snd entry). bodyMap (fst pair) = None))"

text \<open>
  The situation in which \<^verbatim>\<open>orderSelectedAccelerationMap\<close> acts on the sequence of a pair:
  the sequence has thrust and aerodynamic entries, and the last aerodynamic index exceeds
  the first thrust index. With more than one aerodynamic entry the function throws; a map
  none of whose sequences is of that kind can be put in order.
\<close>

definition aerodynamicAfterThrust :: "AccelerationSettings list \<Rightarrow> bool" where
  "aerodynamicAfterThrust accelerationList =
     (thrustAccelerationIndices accelerationList \<noteq> [] \<and>
      aerodynamicAccelerationIndex accelerationList \<noteq> [] \<and>
      last (aerodynamicAccelerationIndex accelerationList) >
        hd (thrustAccelerationIndices accelerationList))"

definition severalAerodynamicAfterThrust :: "AccelerationSettings list \<Rightarrow> bool" where
  "severalAerodynamicAfterThrust accelerationList =
     (aerodynamicAfterThrust accelerationList \<and>
      length (aerodynamicAccelerationIndex accelerationList) > 1)"

definition everySequenceOrderable :: "SelectedAccelerationMap \<Rightarrow> bool" where
  "everySequenceOrderable selected =
     list_all
       (\<lambda>entry. list_all (\<lambda>pair. \<not> severalAerodynamicAfterThrust (snd pair)) (snd entry))
       selected"

text \<open>
  The error of the lookups at the start of the turn of an undergoing body, in the order
  of the source: the declared central body, the central body in the body map when it is
  not an inertial frame, the undergoing body in the body map.
\<close>

definition lookupErrorOfUndergoingBody ::
  "(string \<rightharpoonup> nat) \<Rightarrow> (string \<rightharpoonup> string) \<Rightarrow> string \<Rightarrow> error" where
  "lookupErrorOfUndergoingBody bodyMap centralBodies bodyUndergoingAcceleration =
     (case centralBodies bodyUndergoingAcceleration of
        None \<Rightarrow> out_of_range
      | Some currentCentralBodyName \<Rightarrow>
          if \<not> isFrameInertial currentCentralBodyName \<and>
             bodyMap currentCentralBodyName = None
          then CentralBodyNotFound currentCentralBodyName bodyUndergoingAcceleration
          else UndergoingBodyNotFound bodyUndergoingAcceleration)"

text \<open>
  A \<^verbatim>\<open>std::map\<close> with keys of type \<^verbatim>\<open>std::string\<close> is iterated in strictly increasing
  order of the keys, strings compared character by character. A list of entries that
  stands for \<^verbatim>\<open>SelectedAccelerationMap\<close> is in that order, and so is the list of every
  undergoing body.
\<close>

definition inIterationOrder :: "SelectedAccelerationMap \<Rightarrow> bool" where
  "inIterationOrder selected =
     (sorted_wrt (<) (map fst selected) \<and>
      list_all (\<lambda>entry. sorted_wrt (<) (map fst (snd entry))) selected)"

text \<open>
  The name that the message of a central-gravity request carries next to the name of the
  exerting body, when the exerting body has no gravity field: the direct build raises
  with the name of the undergoing body; of the two builds of a third-body model the one
  evaluated first raises, with the name of the undergoing body or of the central body.
\<close>

definition nameOfBodyInMessage ::
  "argument_order \<Rightarrow> string \<Rightarrow> string \<Rightarrow> string \<Rightarrow> string" where
  "nameOfBodyInMessage order nameOfBodyUndergoingAcceleration nameOfBodyExertingAcceleration
       nameOfCentralBody =
     (if nameOfCentralBody = nameOfBodyExertingAcceleration \<or>
         isFrameInertial nameOfCentralBody
      then nameOfBodyUndergoingAcceleration
      else (case order of
              left_to_right \<Rightarrow> nameOfBodyUndergoingAcceleration
            | right_to_left \<Rightarrow> nameOfCentralBody))"

subsection \<open>An environment for the examples\<close>

text \<open>
  Six bodies: Earth (handle 0) with a spherical-harmonics field, an atmosphere, a shape
  and a rotation model of its own frame; a probe (1) with aerodynamic coefficients and a
  radiation-pressure interface for the Sun; the Moon (2) and the Sun (5) with a central
  field; Jupiter (3) with no gravity field; Mars (4) with a spherical-harmonics field in
  the frame IAU_Mars and a rotation model whose target frame is IAU_Earth. The names
  Apollo and Zond have a declared central body and no body in the body map.
\<close>

definition bareBody :: "int Body" where
  "bareBody =
     \<lparr>gravityFieldModel = None, atmosphereModel = None, shapeModel = None,
      aerodynamicCoefficientInterface = None, radiationPressureInterfaces = Map.empty,
      flightConditions = None, rotationalEphemeris = None\<rparr>"

definition exampleBodies :: "nat \<Rightarrow> int Body" where
  "exampleBodies =
     (\<lambda>h. bareBody)
       (0 := bareBody
          \<lparr>gravityFieldModel :=
             Some (SphericalHarmonics
                     (SphericalHarmonicsGravityField 398600 6378 ''IAU_Earth'')),
           atmosphereModel := Some AtmosphereModel,
           shapeModel := Some BodyShapeModel,
           rotationalEphemeris := Some (RotationalEphemeris ''IAU_Earth'')\<rparr>,
        1 := bareBody
          \<lparr>aerodynamicCoefficientInterface :=
             Some (AerodynamicCoefficientInterface True True),
           radiationPressureInterfaces := [''Sun'' \<mapsto> RadiationPressureInterface 0]\<rparr>,
        2 := bareBody\<lparr>gravityFieldModel := Some (GravityFieldModel 4903)\<rparr>,
        4 := bareBody
          \<lparr>gravityFieldModel :=
             Some (SphericalHarmonics
                     (SphericalHarmonicsGravityField 42828 3396 ''IAU_Mars'')),
           rotationalEphemeris := Some (RotationalEphemeris ''IAU_Earth'')\<rparr>,
        5 := bareBody\<lparr>gravityFieldModel := Some (GravityFieldModel 132712440018)\<rparr>)"

definition exampleEnvironment :: "int environment" where
  "exampleEnvironment = \<lparr>bodies = exampleBodies, flightConditionsObjects = []\<rparr>"

definition exampleBodyMap :: "string \<rightharpoonup> nat" where
  "exampleBodyMap =
     [''Earth'' \<mapsto> 0, ''Probe'' \<mapsto> 1, ''Moon'' \<mapsto> 2, ''Jupiter'' \<mapsto> 3, ''Mars'' \<mapsto> 4,
      ''Sun'' \<mapsto> 5]"

definition exampleCentralBodies :: "string \<rightharpoonup> string" where
  "exampleCentralBodies =
     [''Apollo'' \<mapsto> ''SSB'', ''Probe'' \<mapsto> ''SSB'', ''Zond'' \<mapsto> ''SSB'']"

section \<open>Properties\<close>

lemmas example_defs =
  exampleEnvironment_def exampleBodies_def bareBody_def exampleBodyMap_def
  exampleCentralBodies_def

subsection \<open>The frame classifier\<close>

text \<open>
  Claim C10. \<^verbatim>\<open>isFrameInertial\<close> classifies a frame name as inertial if and only if it is
  exactly "SSB", the empty string or "Inertial"; every other name, the name of an ordinary
  body among them, is classified as not inertial.
\<close>

theorem isFrameInertial_exactly:
  "isFrameInertial frame \<longleftrightarrow> frame = ''SSB'' \<or> frame = '''' \<or> frame = ''Inertial''"
  by (simp add: isFrameInertial_def)

subsection \<open>The gravity builders\<close>

lemma createCentralGravityAcceleratioModel_builds:
  assumes "gravityFieldModel (bodies env e) = Some exertingField"
  shows "\<exists>m. createCentralGravityAcceleratioModel env (Some u) e un en flag = Inr m \<and>
            (flag = False \<or> gravityFieldModel (bodies env u) = None \<longrightarrow>
               gravitationalParameterFunction m () =
                 getGravitationalParameter exertingField) \<and>
            (\<forall>undergoingField.
               flag \<and> gravityFieldModel (bodies env u) = Some undergoingField \<longrightarrow>
               gravitationalParameterFunction m () =
                 getGravitationalParameter exertingField +
                 getGravitationalParameter undergoingField)"
  using assms
  by (cases flag; cases "gravityFieldModel (bodies env u)")
     (simp_all add: createCentralGravityAcceleratioModel_def evaluateDoubleFunctions_def)

lemma createCentralGravityAcceleratioModel_leg:
  assumes "gravityFieldModel (bodies env e) = Some exertingField"
  shows "createCentralGravityAcceleratioModel env p e pn en False =
           Inr (CentralGravitationalAccelerationModel3d p
                  (\<lambda>_. getGravitationalParameter exertingField) e)"
  using assms by (simp add: createCentralGravityAcceleratioModel_def)

lemma createCentralGravityAcceleratioModel_fails:
  assumes "gravityFieldModel (bodies env e) = None"
  shows "createCentralGravityAcceleratioModel env p e pn en flag =
           Inl (GravityFieldModelNotSet en pn)"
  using assms by (simp add: createCentralGravityAcceleratioModel_def)

lemma createSphericalHarmonicsGravityAcceleration_builds:
  assumes "gravityFieldModel (bodies env e) =
      Some (SphericalHarmonics (SphericalHarmonicsGravityField mu r f))"
    and "cast_SphericalHarmonicAccelerationSettings s = Some (n, k)"
  shows "\<exists>m. createSphericalHarmonicsGravityAcceleration env u e un en s flag = Inr m \<and>
            (flag = False \<or> gravityFieldModel (bodies env u) = None \<longrightarrow>
               sh_gravitationalParameterFunction m () = mu) \<and>
            (\<forall>undergoingField.
               flag \<and> gravityFieldModel (bodies env u) = Some undergoingField \<longrightarrow>
               sh_gravitationalParameterFunction m () =
                 mu + getGravitationalParameter undergoingField)"
  using assms
  by (cases flag; cases "gravityFieldModel (bodies env u)")
     (simp_all add: createSphericalHarmonicsGravityAcceleration_def
        evaluateDoubleFunctions_def)

text \<open>
  Claim C4. For every gravity build of the central and of the spherical-harmonic family,
  on an exerting body that has the gravity field the family needs: the build returns a
  model; if the central-body-fixed-frame flag is false, or the undergoing body has no
  gravity field model, the gravitational-parameter function of the model returns the
  gravitational parameter of the exerting body alone; if the flag is true and the
  undergoing body has a gravity field, it returns the sum of the two parameters. The two
  legs of a third-body model are built with the flag false and carry the parameter of
  the exerting body alone.
\<close>

theorem gravitational_parameter_resolved:
  assumes "gravityFieldModel (bodies env e) = Some exertingField"
  shows "(\<exists>m. createCentralGravityAcceleratioModel env (Some u) e un en flag = Inr m \<and>
              (flag = False \<or> gravityFieldModel (bodies env u) = None \<longrightarrow>
                 gravitationalParameterFunction m () =
                   getGravitationalParameter exertingField) \<and>
              (\<forall>undergoingField.
                 flag \<and> gravityFieldModel (bodies env u) = Some undergoingField \<longrightarrow>
                 gravitationalParameterFunction m () =
                   getGravitationalParameter exertingField +
                   getGravitationalParameter undergoingField)) \<and>
         (\<forall>p pn. \<exists>m. createCentralGravityAcceleratioModel env p e pn en False = Inr m \<and>
              gravitationalParameterFunction m () =
                getGravitationalParameter exertingField) \<and>
         (cast_SphericalHarmonicsGravityField (Some exertingField) \<noteq> None \<and>
          cast_SphericalHarmonicAccelerationSettings s \<noteq> None \<longrightarrow>
            (\<exists>m. createSphericalHarmonicsGravityAcceleration env u e un en s flag = Inr m \<and>
                (flag = False \<or> gravityFieldModel (bodies env u) = None \<longrightarrow>
                   sh_gravitationalParameterFunction m () =
                     getGravitationalParameter exertingField) \<and>
                (\<forall>undergoingField.
                   flag \<and> gravityFieldModel (bodies env u) = Some undergoingField \<longrightarrow>
                   sh_gravitationalParameterFunction m () =
                     getGravitationalParameter exertingField +
                     getGravitationalParameter undergoingField)))"
proof (intro conjI impI allI)
  show "\<exists>m. createCentralGravityAcceleratioModel env (Some u) e un en flag = Inr m \<and>
          (flag = False \<or> gravityFieldModel (bodies env u) = None \<longrightarrow>
             gravitationalParameterFunction m () =
               getGravitationalParameter exertingField) \<and>
          (\<forall>undergoingField.
             flag \<and> gravityFieldModel (bodies env u) = Some undergoingField \<longrightarrow>
             gravitationalParameterFunction m () =
               getGravitationalParameter exertingField +
               getGravitationalParameter undergoingField)"
    by (rule createCentralGravityAcceleratioModel_builds [OF assms])
next
  fix p pn
  show "\<exists>m. createCentralGravityAcceleratioModel env p e pn en False = Inr m \<and>
          gravitationalParameterFunction m () = getGravitationalParameter exertingField"
    by (simp add: createCentralGravityAcceleratioModel_leg [OF assms])
next
  assume casts: "cast_SphericalHarmonicsGravityField (Some exertingField) \<noteq> None \<and>
    cast_SphericalHarmonicAccelerationSettings s \<noteq> None"
  then obtain shField where "exertingField = SphericalHarmonics shField"
    by (cases exertingField) simp_all
  then obtain mu r f where
    field: "exertingField = SphericalHarmonics (SphericalHarmonicsGravityField mu r f)"
    by (cases shField) simp_all
  from casts obtain n k where settings:
    "cast_SphericalHarmonicAccelerationSettings s = Some (n, k)"
    by auto
  from createSphericalHarmonicsGravityAcceleration_builds
    [OF assms [unfolded field] settings, of u un en flag] field
  show "\<exists>m. createSphericalHarmonicsGravityAcceleration env u e un en s flag = Inr m \<and>
          (flag = False \<or> gravityFieldModel (bodies env u) = None \<longrightarrow>
             sh_gravitationalParameterFunction m () =
               getGravitationalParameter exertingField) \<and>
          (\<forall>undergoingField.
             flag \<and> gravityFieldModel (bodies env u) = Some undergoingField \<longrightarrow>
             sh_gravitationalParameterFunction m () =
               getGravitationalParameter exertingField +
               getGravitationalParameter undergoingField)"
    by simp
qed

text \<open>
  The Moon (handle 2) on Earth (handle 0), both with a gravity field, the flag set: the
  parameter is the sum, for the central and for the spherical-harmonic model.
\<close>

theorem gravitational_parameter_resolved_witness:
  "gravityFieldModel (bodies exampleEnvironment 0) =
     Some (SphericalHarmonics (SphericalHarmonicsGravityField 398600 6378 ''IAU_Earth'')) \<and>
   (\<exists>m. createCentralGravityAcceleratioModel exampleEnvironment (Some 2) 0 ''Moon''
           ''Earth'' True = Inr m \<and>
        gravitationalParameterFunction m () = 403503) \<and>
   (\<exists>m. createSphericalHarmonicsGravityAcceleration exampleEnvironment 2 0 ''Moon''
           ''Earth'' (SphericalHarmonicAccelerationSettings 4 4) True = Inr m \<and>
        sh_gravitationalParameterFunction m () = 403503)"
proof -
  have field: "gravityFieldModel (bodies exampleEnvironment 0) =
      Some (SphericalHarmonics (SphericalHarmonicsGravityField 398600 6378 ''IAU_Earth''))"
    by (simp add: example_defs)
  have moon: "gravityFieldModel (bodies exampleEnvironment 2) =
      Some (GravityFieldModel 4903)"
    by (simp add: example_defs)
  from gravitational_parameter_resolved [OF field, of 2 "''Moon''" "''Earth''" True
      "SphericalHarmonicAccelerationSettings 4 4"] field moon
  show ?thesis by auto
qed

subsection \<open>The dispatch of central gravity\<close>

text \<open>
  Claim C1. For settings tagged central gravity and an exerting body that has a gravity
  field, \<^verbatim>\<open>createAccelerationModel\<close> builds the direct central-gravity model exactly when
  the name of the central body equals the name of the exerting body or is an inertial
  frame, with the flag of the summed parameter set exactly when the two names are equal;
  otherwise it builds the third-body composite of the direct model on the undergoing
  body and the direct model on the central body, both built with the flag false for the
  same exerting body, and the composite evaluates to the first minus the second.
\<close>

theorem central_gravity_direct_or_third_body:
  assumes "accelerationType s = central_gravity"
    and "gravityFieldModel (bodies env e) = Some exertingField"
  shows "if cn = en \<or> isFrameInertial cn
         then \<exists>m. createAccelerationModel order env u e s un en c cn =
                     (Inr (CentralGravity m), env) \<and>
                   createCentralGravityAcceleratioModel env (Some u) e un en (cn = en) =
                     Inr m
         else \<exists>m1 m2.
                createAccelerationModel order env u e s un en c cn =
                  (Inr (ThirdBodyCentralGravity
                          (ThirdBodyCentralGravityAcceleration m1 m2)), env) \<and>
                createCentralGravityAcceleratioModel env (Some u) e un en False = Inr m1 \<and>
                createCentralGravityAcceleratioModel env c e cn en False = Inr m2 \<and>
                (\<forall>getAcceleration :: _ \<Rightarrow> 'v::minus.
                   getAcceleration_ThirdBodyCentralGravityAcceleration getAcceleration
                     (ThirdBodyCentralGravityAcceleration m1 m2) =
                   getAcceleration m1 - getAcceleration m2)"
proof (cases "cn = en \<or> isFrameInertial cn")
  case True
  obtain m where
    "createCentralGravityAcceleratioModel env (Some u) e un en (cn = en) = Inr m"
    using createCentralGravityAcceleratioModel_builds [OF assms(2)] by blast
  with True assms(1) show ?thesis
    by (auto simp add: createAccelerationModel_def)
next
  case False
  have leg1: "createCentralGravityAcceleratioModel env (Some u) e un en False =
      Inr (CentralGravitationalAccelerationModel3d (Some u)
             (\<lambda>_. getGravitationalParameter exertingField) e)"
    by (rule createCentralGravityAcceleratioModel_leg [OF assms(2)])
  have leg2: "createCentralGravityAcceleratioModel env c e cn en False =
      Inr (CentralGravitationalAccelerationModel3d c
             (\<lambda>_. getGravitationalParameter exertingField) e)"
    by (rule createCentralGravityAcceleratioModel_leg [OF assms(2)])
  from False assms(1) leg1 leg2 show ?thesis
    by (cases order)
       (simp_all add: createAccelerationModel_def
          createThirdBodyCentralGravityAccelerationModel_def
          getAcceleration_ThirdBodyCentralGravityAcceleration_def)
qed

text \<open>
  The probe (1) around Earth (0), attracted by the Moon (2): the central body is neither
  the Moon nor an inertial frame, and the model is the third-body composite.
\<close>

theorem central_gravity_direct_or_third_body_witness:
  "accelerationType (AccelerationSettings central_gravity) = central_gravity \<and>
   gravityFieldModel (bodies exampleEnvironment 2) = Some (GravityFieldModel 4903) \<and>
   (\<forall>order. \<exists>m1 m2.
      createAccelerationModel order exampleEnvironment 1 2
        (AccelerationSettings central_gravity) ''Probe'' ''Moon'' (Some 0) ''Earth'' =
        (Inr (ThirdBodyCentralGravity (ThirdBodyCentralGravityAcceleration m1 m2)),
         exampleEnvironment) \<and>
      createCentralGravityAcceleratioModel exampleEnvironment (Some 1) 2 ''Probe'' ''Moon''
        False = Inr m1 \<and>
      createCentralGravityAcceleratioModel exampleEnvironment (Some 0) 2 ''Earth'' ''Moon''
        False = Inr m2 \<and>
      (\<forall>getAcceleration :: _ \<Rightarrow> int.
         getAcceleration_ThirdBodyCentralGravityAcceleration getAcceleration
           (ThirdBodyCentralGravityAcceleration m1 m2) =
         getAcceleration m1 - getAcceleration m2))"
proof -
  have tag: "accelerationType (AccelerationSettings central_gravity) = central_gravity"
    by simp
  have field: "gravityFieldModel (bodies exampleEnvironment 2) =
      Some (GravityFieldModel 4903)"
    by (simp add: example_defs)
  have central: "\<not> (''Earth'' = ''Moon'' \<or> isFrameInertial ''Earth'')"
    by (simp add: isFrameInertial_def)
  have "\<exists>m1 m2.
      createAccelerationModel order exampleEnvironment 1 2
        (AccelerationSettings central_gravity) ''Probe'' ''Moon'' (Some 0) ''Earth'' =
        (Inr (ThirdBodyCentralGravity (ThirdBodyCentralGravityAcceleration m1 m2)),
         exampleEnvironment) \<and>
      createCentralGravityAcceleratioModel exampleEnvironment (Some 1) 2 ''Probe'' ''Moon''
        False = Inr m1 \<and>
      createCentralGravityAcceleratioModel exampleEnvironment (Some 0) 2 ''Earth'' ''Moon''
        False = Inr m2 \<and>
      (\<forall>getAcceleration :: _ \<Rightarrow> int.
         getAcceleration_ThirdBodyCentralGravityAcceleration getAcceleration
           (ThirdBodyCentralGravityAcceleration m1 m2) =
         getAcceleration m1 - getAcceleration m2)"
    for order
    using central_gravity_direct_or_third_body [OF tag field, where cn = "''Earth''"
        and en = "''Moon''" and u = 1 and un = "''Probe''" and c = "Some 0"
        and order = order and ?'v = int] central
    by simp
  with tag field show ?thesis by blast
qed

subsection \<open>Spherical-harmonic gravity relative to a central body\<close>

text \<open>
  Claim C5 as stated: for a spherical-harmonic settings entry whose central body is
  neither the exerting body nor an inertial frame, \<^verbatim>\<open>createAccelerationModel\<close> produces
  a third-body composite without error. It does not: for the probe around Earth and the
  spherical-harmonic field of Mars the call raises, and no model is returned.
\<close>

theorem third_body_spherical_harmonic_counterexample:
  "accelerationType (SphericalHarmonicAccelerationSettings 4 4) =
     spherical_harmonic_gravity \<and>
   ''Earth'' \<noteq> ''Mars'' \<and> \<not> isFrameInertial ''Earth'' \<and>
   createAccelerationModel left_to_right exampleEnvironment 1 4
     (SphericalHarmonicAccelerationSettings 4 4) ''Probe'' ''Mars'' (Some 0) ''Earth'' =
     (Inl ThirdBodySphericalHarmonicNotYet, exampleEnvironment) \<and>
   createAccelerationModel right_to_left exampleEnvironment 1 4
     (SphericalHarmonicAccelerationSettings 4 4) ''Probe'' ''Mars'' (Some 0) ''Earth'' =
     (Inl ThirdBodySphericalHarmonicNotYet, exampleEnvironment)"
  by (simp add: createAccelerationModel_def isFrameInertial_def)

text \<open>
  Claim C5 as amended: for every settings entry tagged spherical-harmonic gravity whose
  central body is neither the exerting body nor an inertial frame,
  \<^verbatim>\<open>createAccelerationModel\<close> raises the error "cannot yet make third body spherical
  harmonic acceleration", a configuration error, and leaves the bodies as they were; no
  model is produced.
\<close>

theorem third_body_spherical_harmonic_refused:
  assumes "accelerationType s = spherical_harmonic_gravity"
    and "cn \<noteq> en" and "\<not> isFrameInertial cn"
  shows "createAccelerationModel order env u e s un en c cn =
           (Inl ThirdBodySphericalHarmonicNotYet, env) \<and>
         error_class_of ThirdBodySphericalHarmonicNotYet = ConfigurationError"
  using assms by (simp add: createAccelerationModel_def)

theorem third_body_spherical_harmonic_refused_witness:
  "accelerationType (SphericalHarmonicAccelerationSettings 4 4) =
     spherical_harmonic_gravity \<and>
   ''Earth'' \<noteq> ''Mars'' \<and> \<not> isFrameInertial ''Earth'' \<and>
   (\<forall>order.
      createAccelerationModel order exampleEnvironment 1 4
        (SphericalHarmonicAccelerationSettings 4 4) ''Probe'' ''Mars'' (Some 0) ''Earth'' =
        (Inl ThirdBodySphericalHarmonicNotYet, exampleEnvironment)) \<and>
   error_class_of ThirdBodySphericalHarmonicNotYet = ConfigurationError"
proof -
  have tag: "accelerationType (SphericalHarmonicAccelerationSettings 4 4) =
      spherical_harmonic_gravity"
    by simp
  have names: "''Earth'' \<noteq> ''Mars''" by simp
  have frame: "\<not> isFrameInertial ''Earth''" by (simp add: isFrameInertial_def)
  from third_body_spherical_harmonic_refused [OF tag names frame,
      where env = exampleEnvironment and u = 1 and e = 4 and un = "''Probe''"
      and c = "Some 0"] tag names frame
  show ?thesis by simp
qed

subsection \<open>Cannonball radiation pressure\<close>

lemma cannon_ball_missing_interface:
  assumes "accelerationType s = cannon_ball_radiation_pressure"
  shows "(\<exists>err. createAccelerationModel order env u e s un en c cn = (Inl err, env) \<and>
                error_class_of err = MissingCapabilityError) \<longleftrightarrow>
         radiationPressureInterfaces (bodies env u) en = None"
  using assms
  by (auto simp add: createAccelerationModel_def
      createCannonballRadiationPressureAcceleratioModel_def split: option.splits)

lemma cannon_ball_never_built:
  assumes "accelerationType s = cannon_ball_radiation_pressure"
  shows "\<exists>err. createAccelerationModel order env u e s un en c cn = (Inl err, env)"
  using assms by (simp add: createAccelerationModel_def split: sum.splits)

text \<open>
  Claim C3 says that, for settings tagged cannonball radiation pressure and an undergoing
  body that has a radiation-pressure interface for the exerting body,
  \<^verbatim>\<open>createAccelerationModel\<close> returns the cannonball model. The probe has an interface
  for the Sun and the builder makes the model, but the case of the switch has no
  \<^verbatim>\<open>break\<close>, and \<^verbatim>\<open>createAccelerationModel\<close> raises "acceleration model not recognized".
\<close>

theorem cannon_ball_falls_through:
  "radiationPressureInterfaces (bodies exampleEnvironment 1) ''Sun'' =
     Some (RadiationPressureInterface 0) \<and>
   createCannonballRadiationPressureAcceleratioModel exampleEnvironment 1 5 ''Probe''
     ''Sun'' =
     Inr (CannonBallRadiationPressureAcceleration 5 1 (RadiationPressureInterface 0)
            (RadiationPressureInterface 0) (RadiationPressureInterface 0) 1) \<and>
   (\<forall>order.
      createAccelerationModel order exampleEnvironment 1 5
        (AccelerationSettings cannon_ball_radiation_pressure) ''Probe'' ''Sun'' None
        ''SSB'' =
        (Inl (AccelerationModelNotRecognized cannon_ball_radiation_pressure ''Sun''
                ''Probe''),
         exampleEnvironment))"
  by (simp add: createAccelerationModel_def
      createCannonballRadiationPressureAcceleratioModel_def example_defs)

subsection \<open>The frame of a spherical-harmonics field\<close>

lemma createSphericalHarmonicsGravityAcceleration_ignores_rotation:
  "createSphericalHarmonicsGravityAcceleration
     (env\<lparr>bodies := (bodies env)(e := (bodies env e)\<lparr>rotationalEphemeris := rot\<rparr>)\<rparr>)
     u e un en s flag =
   createSphericalHarmonicsGravityAcceleration env u e un en s flag"
  by (cases "u = e")
     (simp_all add: createSphericalHarmonicsGravityAcceleration_def
        cong: option.case_cong if_cong)

lemma createSphericalHarmonicsGravityAcceleration_no_frame_error:
  "createSphericalHarmonicsGravityAcceleration env u e un en s flag = Inl err \<Longrightarrow>
     error_class_of err \<noteq> FrameMismatchError"
  by (auto simp add: createSphericalHarmonicsGravityAcceleration_def
      split: option.splits)

lemma createSphericalHarmonicsGravityAcceleration_PropagationSetup_frames:
  assumes "gravityFieldModel (bodies env e) =
      Some (SphericalHarmonics (SphericalHarmonicsGravityField mu r f))"
    and "rotationalEphemeris (bodies env e) = Some (RotationalEphemeris target)"
    and "cast_SphericalHarmonicAccelerationSettings s = Some (n, k)"
  shows "(\<exists>err. createSphericalHarmonicsGravityAcceleration_PropagationSetup env u e un en
                  s flag = Inl err \<and> error_class_of err = FrameMismatchError) \<longleftrightarrow>
         target \<noteq> f"
  using assms
  by (auto simp add: createSphericalHarmonicsGravityAcceleration_PropagationSetup_def)

text \<open>
  Claim C7 says that the direct spherical-harmonic build, for an exerting body with a
  spherical-harmonics field and a rotational ephemeris, fails with a frame mismatch if
  and only if the target frame of the ephemeris differs from the fixed frame of the
  field. Mars has its field in IAU_Mars and an ephemeris to IAU_Earth:
  \<^verbatim>\<open>createSphericalHarmonicsGravityAcceleration\<close> of the earlier file builds the model all
  the same, while the function of that name in the later file raises.
\<close>

theorem frame_mismatch_not_checked:
  "gravityFieldModel (bodies exampleEnvironment 4) =
     Some (SphericalHarmonics (SphericalHarmonicsGravityField 42828 3396 ''IAU_Mars'')) \<and>
   rotationalEphemeris (bodies exampleEnvironment 4) =
     Some (RotationalEphemeris ''IAU_Earth'') \<and>
   createSphericalHarmonicsGravityAcceleration exampleEnvironment 1 4 ''Probe'' ''Mars''
     (SphericalHarmonicAccelerationSettings 4 4) False =
     Inr (SphericalHarmonicsGravitationalAccelerationModelXd 1
            (\<lambda>_. sh_getGravitationalParameter
                    (SphericalHarmonicsGravityField 42828 3396 ''IAU_Mars''))
            3396
            (SphericalHarmonicsGravityField 42828 3396 ''IAU_Mars'', 4, 4)
            (SphericalHarmonicsGravityField 42828 3396 ''IAU_Mars'', 4, 4) 4) \<and>
   createSphericalHarmonicsGravityAcceleration_PropagationSetup exampleEnvironment 1 4
     ''Probe'' ''Mars'' (SphericalHarmonicAccelerationSettings 4 4) False =
     Inl (RotationModelIncompatible ''Probe'' ''Mars'' ''IAU_Earth'' ''IAU_Mars'')"
  by (simp add: createSphericalHarmonicsGravityAcceleration_def
      createSphericalHarmonicsGravityAcceleration_PropagationSetup_def example_defs)

subsection \<open>Flight conditions\<close>

lemma createAerodynamicAcceleratioModel_effect:
  assumes "createAerodynamicAcceleratioModel env u e un en = (r, env')"
  shows "(flightConditions (bodies env u) \<noteq> None \<longrightarrow> env' = env) \<and>
         (\<forall>err. r = Inl err \<longrightarrow> env' = env) \<and>
         (\<forall>p. p \<noteq> u \<longrightarrow> bodies env' p = bodies env p) \<and>
         (env' = env \<or>
          flightConditions (bodies env u) = None \<and>
          bodies env' u =
            (bodies env u)\<lparr>flightConditions := Some (length (flightConditionsObjects env))\<rparr> \<and>
          flightConditionsObjects env' = flightConditionsObjects env @ [(u, e, un, en)])"
  using assms
  by (auto simp add: createAerodynamicAcceleratioModel_def createFlightConditions_def
      setFlightConditions_def split: option.splits if_splits)

lemma createAerodynamicAcceleratioModel_attached:
  assumes "createAerodynamicAcceleratioModel env u e un en = (Inr m, env')"
  shows "flightConditions (bodies env' u) = Some (densityFunction m) \<and>
         speedFunction m = densityFunction m \<and>
         length (flightConditionsObjects env') \<le> Suc (length (flightConditionsObjects env))"
  using assms
  by (auto simp add: createAerodynamicAcceleratioModel_def createFlightConditions_def
      setFlightConditions_def split: option.splits if_splits)

lemma createAerodynamicAcceleratioModel_reuses:
  assumes "flightConditions (bodies env u) = Some fc"
    and "createAerodynamicAcceleratioModel env u e un en = (Inr m, env')"
  shows "env' = env \<and> densityFunction m = fc \<and> speedFunction m = fc"
  using assms
  by (auto simp add: createAerodynamicAcceleratioModel_def split: option.splits if_splits)

lemma createAerodynamicAcceleratioModel_again:
  assumes "createAerodynamicAcceleratioModel env u e un en = (Inr m, env')"
  shows "createAerodynamicAcceleratioModel env' u e un en = (Inr m, env')"
  using assms
  by (auto simp add: createAerodynamicAcceleratioModel_def createFlightConditions_def
      setFlightConditions_def split: option.splits if_splits)

text \<open>
  Claim C8. Building an aerodynamic acceleration model changes the undergoing body only
  by attaching a flight-conditions object, and only when none is attached yet: a body
  that has flight conditions keeps them and nothing changes; otherwise the one change is
  that a new FlightConditions object is attached to the undergoing body. After a build
  that succeeded, every further build for the same undergoing body leaves everything as
  it is and binds the same FlightConditions object, so the builds together have created
  at most one.
\<close>

theorem flight_conditions_attached_once:
  "(createAerodynamicAcceleratioModel env u e un en = (r, env') \<longrightarrow>
      (flightConditions (bodies env u) \<noteq> None \<longrightarrow> env' = env) \<and>
      (\<forall>p. p \<noteq> u \<longrightarrow> bodies env' p = bodies env p) \<and>
      (env' = env \<or>
       flightConditions (bodies env u) = None \<and>
       bodies env' u =
         (bodies env u)\<lparr>flightConditions := Some (length (flightConditionsObjects env))\<rparr> \<and>
       flightConditionsObjects env' = flightConditionsObjects env @ [(u, e, un, en)])) \<and>
   (createAerodynamicAcceleratioModel env u e un en = (Inr m1, env1) \<longrightarrow>
      createAerodynamicAcceleratioModel env1 u e un en = (Inr m1, env1) \<and>
      flightConditions (bodies env1 u) = Some (densityFunction m1) \<and>
      length (flightConditionsObjects env1) \<le> Suc (length (flightConditionsObjects env)) \<and>
      (\<forall>e2 un2 en2 m2 env2.
         createAerodynamicAcceleratioModel env1 u e2 un2 en2 = (Inr m2, env2) \<longrightarrow>
         env2 = env1 \<and> densityFunction m2 = densityFunction m1 \<and>
         speedFunction m2 = speedFunction m1))"
proof (rule conjI)
  show "createAerodynamicAcceleratioModel env u e un en = (r, env') \<longrightarrow>
      (flightConditions (bodies env u) \<noteq> None \<longrightarrow> env' = env) \<and>
      (\<forall>p. p \<noteq> u \<longrightarrow> bodies env' p = bodies env p) \<and>
      (env' = env \<or>
       flightConditions (bodies env u) = None \<and>
       bodies env' u =
         (bodies env u)\<lparr>flightConditions := Some (length (flightConditionsObjects env))\<rparr> \<and>
       flightConditionsObjects env' = flightConditionsObjects env @ [(u, e, un, en)])"
    using createAerodynamicAcceleratioModel_effect [of env u e un en r env'] by blast
next
  show "createAerodynamicAcceleratioModel env u e un en = (Inr m1, env1) \<longrightarrow>
      createAerodynamicAcceleratioModel env1 u e un en = (Inr m1, env1) \<and>
      flightConditions (bodies env1 u) = Some (densityFunction m1) \<and>
      length (flightConditionsObjects env1) \<le> Suc (length (flightConditionsObjects env)) \<and>
      (\<forall>e2 un2 en2 m2 env2.
         createAerodynamicAcceleratioModel env1 u e2 un2 en2 = (Inr m2, env2) \<longrightarrow>
         env2 = env1 \<and> densityFunction m2 = densityFunction m1 \<and>
         speedFunction m2 = speedFunction m1)"
  proof (rule impI)
    assume first: "createAerodynamicAcceleratioModel env u e un en = (Inr m1, env1)"
    have again: "createAerodynamicAcceleratioModel env1 u e un en = (Inr m1, env1)"
      by (rule createAerodynamicAcceleratioModel_again [OF first])
    note attached = createAerodynamicAcceleratioModel_attached [OF first]
    from attached have has: "flightConditions (bodies env1 u) = Some (densityFunction m1)"
      by simp
    have later: "env2 = env1 \<and> densityFunction m2 = densityFunction m1 \<and>
        speedFunction m2 = speedFunction m1"
      if "createAerodynamicAcceleratioModel env1 u e2 un2 en2 = (Inr m2, env2)"
      for e2 un2 en2 m2 env2
      using createAerodynamicAcceleratioModel_reuses [OF has that] attached by simp
    from again attached later show
      "createAerodynamicAcceleratioModel env1 u e un en = (Inr m1, env1) \<and>
       flightConditions (bodies env1 u) = Some (densityFunction m1) \<and>
       length (flightConditionsObjects env1) \<le> Suc (length (flightConditionsObjects env)) \<and>
       (\<forall>e2 un2 en2 m2 env2.
          createAerodynamicAcceleratioModel env1 u e2 un2 en2 = (Inr m2, env2) \<longrightarrow>
          env2 = env1 \<and> densityFunction m2 = densityFunction m1 \<and>
          speedFunction m2 = speedFunction m1)"
      by blast
  qed
qed

text \<open>
  The probe (1) in the atmosphere of Earth (0), built twice: the first build creates the
  FlightConditions object 0 and attaches it, the second binds the same object.
\<close>

theorem flight_conditions_attached_once_witness:
  "flightConditions (bodies exampleEnvironment 1) = None \<and>
   (\<exists>m1 env1.
      createAerodynamicAcceleratioModel exampleEnvironment 1 0 ''Probe'' ''Earth'' =
        (Inr m1, env1) \<and>
      densityFunction m1 = 0 \<and>
      flightConditions (bodies env1 1) = Some 0 \<and>
      flightConditionsObjects env1 = [(1, 0, ''Probe'', ''Earth'')] \<and>
      createAerodynamicAcceleratioModel env1 1 0 ''Probe'' ''Earth'' = (Inr m1, env1))"
proof -
  have none: "flightConditions (bodies exampleEnvironment 1) = None"
    by (simp add: example_defs)
  obtain m1 env1 where first:
    "createAerodynamicAcceleratioModel exampleEnvironment 1 0 ''Probe'' ''Earth'' =
       (Inr m1, env1)"
    and density: "densityFunction m1 = 0"
    and objects: "flightConditionsObjects env1 = [(1, 0, ''Probe'', ''Earth'')]"
    by (simp add: createAerodynamicAcceleratioModel_def createFlightConditions_def
        setFlightConditions_def example_defs)
  from flight_conditions_attached_once [of exampleEnvironment 1 0 "''Probe''" "''Earth''"
      "Inr m1" env1 m1 env1] first density
  have "createAerodynamicAcceleratioModel env1 1 0 ''Probe'' ''Earth'' = (Inr m1, env1) \<and>
      flightConditions (bodies env1 1) = Some 0"
    by simp
  with none first density objects show ?thesis by blast
qed

subsection \<open>The loops of the assembler\<close>

text \<open>The builds never change a gravity field.\<close>

lemma central_request_fails:
  assumes "accelerationType s = central_gravity"
    and "gravityFieldModel (bodies env e) = None"
  shows "createAccelerationModel order env u e s un en c cn =
           (Inl (GravityFieldModelNotSet en (nameOfBodyInMessage order un en cn)), env)"
  using assms createCentralGravityAcceleratioModel_fails [OF assms(2)]
  by (cases order)
     (simp_all add: createAccelerationModel_def nameOfBodyInMessage_def
        createThirdBodyCentralGravityAccelerationModel_def)

lemma aerodynamic_gravityFieldModel:
  assumes "createAerodynamicAcceleratioModel env u e un en = (r, env')"
  shows "gravityFieldModel (bodies env' p) = gravityFieldModel (bodies env p)"
  using assms
  by (auto simp add: createAerodynamicAcceleratioModel_def createFlightConditions_def
        setFlightConditions_def split: option.splits if_splits)

lemma createAccelerationModel_gravityFieldModel:
  assumes "createAccelerationModel order env u e s un en c cn = (r, env')"
  shows "gravityFieldModel (bodies env' p) = gravityFieldModel (bodies env p)"
proof (cases "accelerationType s")
  case aerodynamic
  with assms show ?thesis
    by (auto simp add: createAccelerationModel_def split: prod.splits
        dest: aerodynamic_gravityFieldModel)
qed (use assms in \<open>auto simp add: createAccelerationModel_def split: if_splits sum.splits\<close>)

lemma accelerationListLoop_gravityFieldModel:
  "accelerationListLoop order env u e un en c cn l acc = (r, env') \<Longrightarrow>
     gravityFieldModel (bodies env' p) = gravityFieldModel (bodies env p)"
proof (induction l arbitrary: env acc)
  case Nil
  then show ?case by simp
next
  case (Cons s l)
  obtain r1 env1 where step: "createAccelerationModel order env u e s un en c cn = (r1, env1)"
    by (cases "createAccelerationModel order env u e s un en c cn")
  have g1: "gravityFieldModel (bodies env1 p) = gravityFieldModel (bodies env p)"
    by (rule createAccelerationModel_gravityFieldModel [OF step])
  show ?case
  proof (cases r1)
    case (Inl err)
    with Cons.prems step g1 show ?thesis by simp
  next
    case (Inr model)
    with Cons.prems step have
      "accelerationListLoop order env1 u e un en c cn l (push_back_at en model acc) = (r, env')"
      by simp
    from Cons.IH [OF this] g1 show ?thesis by simp
  qed
qed

lemma accelerationListLoop_fails:
  "s \<in> set l \<Longrightarrow> accelerationType s = central_gravity \<Longrightarrow>
   gravityFieldModel (bodies env e) = None \<Longrightarrow>
   \<exists>err env'. accelerationListLoop order env u e un en c cn l acc = (Inl err, env')"
proof (induction l arbitrary: env acc)
  case Nil
  then show ?case by simp
next
  case (Cons s' l)
  obtain r1 env1 where step: "createAccelerationModel order env u e s' un en c cn = (r1, env1)"
    by (cases "createAccelerationModel order env u e s' un en c cn")
  have g1: "gravityFieldModel (bodies env1 e) = None"
    using createAccelerationModel_gravityFieldModel [OF step, of e] Cons.prems(3) by simp
  show ?case
  proof (cases r1)
    case (Inl err)
    with step show ?thesis by simp
  next
    case (Inr model)
    have "s' \<noteq> s"
    proof
      assume "s' = s"
      with step Inr central_request_fails [OF Cons.prems(2) Cons.prems(3), of order u un en c cn]
      show False by simp
    qed
    with Cons.prems(1) have "s \<in> set l" by auto
    from Cons.IH [OF this Cons.prems(2) g1] step Inr show ?thesis by simp
  qed
qed

lemma body2IteratorLoop_gravityFieldModel:
  "body2IteratorLoop order env bodyMap u un c cn forBody acc = (r, env') \<Longrightarrow>
     gravityFieldModel (bodies env' p) = gravityFieldModel (bodies env p)"
proof (induction forBody arbitrary: env acc)
  case Nil
  then show ?case by simp
next
  case (Cons entry forBody)
  obtain en l where entry: "entry = (en, l)" by (cases entry)
  show ?case
  proof (cases "bodyMap en")
    case None
    with Cons.prems entry show ?thesis by simp
  next
    case (Some e)
    obtain r1 env1 where inner: "accelerationListLoop order env u e un en c cn l acc = (r1, env1)"
      by (cases "accelerationListLoop order env u e un en c cn l acc")
    have g1: "gravityFieldModel (bodies env1 p) = gravityFieldModel (bodies env p)"
      by (rule accelerationListLoop_gravityFieldModel [OF inner])
    show ?thesis
    proof (cases r1)
      case (Inl err)
      with Cons.prems entry Some inner g1 show ?thesis by simp
    next
      case (Inr acc1)
      with Cons.prems entry Some inner have
        "body2IteratorLoop order env1 bodyMap u un c cn forBody acc1 = (r, env')"
        by simp
      from Cons.IH [OF this] g1 show ?thesis by simp
    qed
  qed
qed

lemma body2IteratorLoop_fails_absent:
  "(en, l) \<in> set forBody \<Longrightarrow> bodyMap en = None \<Longrightarrow>
   \<exists>err env'. body2IteratorLoop order env bodyMap u un c cn forBody acc = (Inl err, env')"
proof (induction forBody arbitrary: env acc)
  case Nil
  then show ?case by simp
next
  case (Cons entry forBody)
  obtain en' l' where entry: "entry = (en', l')" by (cases entry)
  show ?case
  proof (cases "bodyMap en'")
    case None
    with entry show ?thesis by simp
  next
    case (Some e)
    with Cons.prems entry have mem: "(en, l) \<in> set forBody" by auto
    obtain r1 env1 where inner: "accelerationListLoop order env u e un en' c cn l' acc = (r1, env1)"
      by (cases "accelerationListLoop order env u e un en' c cn l' acc")
    show ?thesis
    proof (cases r1)
      case (Inl err)
      with entry Some inner show ?thesis by simp
    next
      case (Inr acc1)
      from Cons.IH [OF mem Cons.prems(2), of env1 acc1] entry Some inner Inr
      show ?thesis by simp
    qed
  qed
qed

lemma body2IteratorLoop_fails_request:
  "(en, l) \<in> set forBody \<Longrightarrow> s \<in> set l \<Longrightarrow> accelerationType s = central_gravity \<Longrightarrow>
   bodyMap en = Some e \<Longrightarrow> gravityFieldModel (bodies env e) = None \<Longrightarrow>
   \<exists>err env'. body2IteratorLoop order env bodyMap u un c cn forBody acc = (Inl err, env')"
proof (induction forBody arbitrary: env acc)
  case Nil
  then show ?case by simp
next
  case (Cons entry forBody)
  obtain en' l' where entry: "entry = (en', l')" by (cases entry)
  show ?case
  proof (cases "bodyMap en'")
    case None
    with entry show ?thesis by simp
  next
    case (Some e')
    obtain r1 env1 where inner:
      "accelerationListLoop order env u e' un en' c cn l' acc = (r1, env1)"
      by (cases "accelerationListLoop order env u e' un en' c cn l' acc")
    have g1: "gravityFieldModel (bodies env1 e) = None"
      using accelerationListLoop_gravityFieldModel [OF inner, of e] Cons.prems(5) by simp
    show ?thesis
    proof (cases r1)
      case (Inl err)
      with entry Some inner show ?thesis by simp
    next
      case (Inr acc1)
      have "(en', l') \<noteq> (en, l)"
      proof
        assume same: "(en', l') = (en, l)"
        with Some Cons.prems(4) have "e' = e" by simp
        with same inner Inr
          accelerationListLoop_fails [OF Cons.prems(2) Cons.prems(3) Cons.prems(5),
            of order u un en c cn acc]
        show False by auto
      qed
      with Cons.prems(1) entry have mem: "(en, l) \<in> set forBody" by auto
      from Cons.IH [OF mem Cons.prems(2) Cons.prems(3) Cons.prems(4) g1, of acc1]
        entry Some inner Inr
      show ?thesis by simp
    qed
  qed
qed

text \<open>One turn of the outer loop, as a case distinction.\<close>

lemma bodyIteratorLoop_step:
  "bodyIteratorLoop order env bodyMap centralBodies ((un, forBody) # rest) acc =
     (case centralBodies un of
        None \<Rightarrow> (Inl out_of_range, env)
      | Some cn \<Rightarrow>
          if \<not> isFrameInertial cn \<and> bodyMap cn = None then
            (Inl (CentralBodyNotFound cn un), env)
          else
            (case bodyMap un of
               None \<Rightarrow> (Inl (UndergoingBodyNotFound un), env)
             | Some u \<Rightarrow>
                 (case body2IteratorLoop order env bodyMap u un
                         (if isFrameInertial cn then None else bodyMap cn) cn forBody [] of
                    (Inl err, env') \<Rightarrow> (Inl err, env')
                  | (Inr m, env') \<Rightarrow>
                      bodyIteratorLoop order env' bodyMap centralBodies rest
                        (AList.update un m acc))))"
  by (auto split: option.splits)

lemma bodyIteratorLoop_gravityFieldModel:
  "bodyIteratorLoop order env bodyMap centralBodies selected acc = (r, env') \<Longrightarrow>
     gravityFieldModel (bodies env' p) = gravityFieldModel (bodies env p)"
proof (induction selected arbitrary: env acc)
  case Nil
  then show ?case by simp
next
  case (Cons entry selected)
  obtain un forBody where entry: "entry = (un, forBody)" by (cases entry)
  note prem = Cons.prems [unfolded entry bodyIteratorLoop_step]
  show ?case
  proof (cases "centralBodies un")
    case None
    with prem show ?thesis by simp
  next
    case cn: (Some cn)
    show ?thesis
    proof (cases "\<not> isFrameInertial cn \<and> bodyMap cn = None")
      case True
      with prem cn show ?thesis by simp
    next
      case False
      show ?thesis
      proof (cases "bodyMap un")
        case None
        with prem cn False show ?thesis by simp
      next
        case (Some u)
        obtain r1 env1 where inner:
          "body2IteratorLoop order env bodyMap u un
             (if isFrameInertial cn then None else bodyMap cn) cn forBody [] = (r1, env1)"
          by (cases "body2IteratorLoop order env bodyMap u un
             (if isFrameInertial cn then None else bodyMap cn) cn forBody []")
        have g1: "gravityFieldModel (bodies env1 p) = gravityFieldModel (bodies env p)"
          by (rule body2IteratorLoop_gravityFieldModel [OF inner])
        show ?thesis
        proof (cases r1)
          case (Inl err)
          with prem cn False Some inner g1 show ?thesis by simp
        next
          case (Inr m)
          with prem cn False Some inner have
            "bodyIteratorLoop order env1 bodyMap centralBodies selected (AList.update un m acc) =
               (r, env')"
            by simp
          from Cons.IH [OF this] g1 show ?thesis by simp
        qed
      qed
    qed
  qed
qed

lemma bodyIteratorLoop_Cons_cases:
  obtains
    (head_fails) err where
      "bodyIteratorLoop order env bodyMap centralBodies ((un, forBody) # rest) acc =
         (Inl err, env)"
  | (inner_fails) cn u err env1 where
      "centralBodies un = Some cn" "isFrameInertial cn \<or> bodyMap cn \<noteq> None"
      "bodyMap un = Some u"
      "body2IteratorLoop order env bodyMap u un
         (if isFrameInertial cn then None else bodyMap cn) cn forBody [] = (Inl err, env1)"
      "bodyIteratorLoop order env bodyMap centralBodies ((un, forBody) # rest) acc =
         (Inl err, env1)"
  | (continues) cn u m env1 where
      "centralBodies un = Some cn" "isFrameInertial cn \<or> bodyMap cn \<noteq> None"
      "bodyMap un = Some u"
      "body2IteratorLoop order env bodyMap u un
         (if isFrameInertial cn then None else bodyMap cn) cn forBody [] = (Inr m, env1)"
      "bodyIteratorLoop order env bodyMap centralBodies ((un, forBody) # rest) acc =
         bodyIteratorLoop order env1 bodyMap centralBodies rest (AList.update un m acc)"
proof (cases "centralBodies un")
  case None
  then show ?thesis
    by (intro head_fails [of out_of_range]) simp
next
  case cn: (Some cn)
  show ?thesis
  proof (cases "\<not> isFrameInertial cn \<and> bodyMap cn = None")
    case True
    with cn show ?thesis
      by (intro head_fails [of "CentralBodyNotFound cn un"]) simp
  next
    case ok: False
    show ?thesis
    proof (cases "bodyMap un")
      case None
      with cn ok show ?thesis
        by (intro head_fails [of "UndergoingBodyNotFound un"])
           (auto split: option.splits)
    next
      case u: (Some u)
      obtain r env1 where inner:
        "body2IteratorLoop order env bodyMap u un
           (if isFrameInertial cn then None else bodyMap cn) cn forBody [] = (r, env1)"
        by (cases "body2IteratorLoop order env bodyMap u un
           (if isFrameInertial cn then None else bodyMap cn) cn forBody []")
      show ?thesis
      proof (cases r)
        case (Inl err)
        with cn ok u inner show ?thesis
          by (intro inner_fails [of cn u err env1]) (auto split: option.splits)
      next
        case (Inr m)
        with cn ok u inner show ?thesis
          by (intro continues [of cn u m env1]) (auto split: option.splits)
      qed
    qed
  qed
qed

lemma bodyIteratorLoop_fails_absent:
  "entry \<in> set selected \<Longrightarrow> entryNameAbsent bodyMap centralBodies entry \<Longrightarrow>
   \<exists>err env'. bodyIteratorLoop order env bodyMap centralBodies selected acc = (Inl err, env')"
proof (induction selected arbitrary: env acc)
  case Nil
  then show ?case by simp
next
  case (Cons entry' selected)
  obtain un forBody where entry': "entry' = (un, forBody)" by (cases entry')
  show ?case
  proof (cases rule: bodyIteratorLoop_Cons_cases
      [of order env bodyMap centralBodies un forBody selected acc])
    case head_fails
    with entry' show ?thesis by blast
  next
    case inner_fails
    with entry' show ?thesis by blast
  next
    case (continues cn u m env1)
    have "entry \<noteq> entry'"
    proof
      assume same: "entry = entry'"
      from Cons.prems(2) [unfolded same entry' entryNameAbsent_def] continues(1,2,3)
      obtain en l where mem: "(en, l) \<in> set forBody" and absent: "bodyMap en = None"
        by auto
      from body2IteratorLoop_fails_absent [where order = order and bodyMap = bodyMap and env = env
          and u = u and un = un and c = "if isFrameInertial cn then None else bodyMap cn"
          and cn = cn and acc = "[]", OF mem absent] continues(4)
      show False by simp
    qed
    with Cons.prems(1) have "entry \<in> set selected" by auto
    from Cons.IH [OF this Cons.prems(2)] continues(5) entry' show ?thesis by simp
  qed
qed

lemma bodyIteratorLoop_fails_request:
  "(un, forBody) \<in> set selected \<Longrightarrow> (en, l) \<in> set forBody \<Longrightarrow> s \<in> set l \<Longrightarrow>
   accelerationType s = central_gravity \<Longrightarrow> bodyMap en = Some e \<Longrightarrow>
   gravityFieldModel (bodies env e) = None \<Longrightarrow>
   \<exists>err env'. bodyIteratorLoop order env bodyMap centralBodies selected acc = (Inl err, env')"
proof (induction selected arbitrary: env acc)
  case Nil
  then show ?case by simp
next
  case (Cons entry' selected)
  obtain un' forBody' where entry': "entry' = (un', forBody')" by (cases entry')
  show ?case
  proof (cases rule: bodyIteratorLoop_Cons_cases
      [of order env bodyMap centralBodies un' forBody' selected acc])
    case head_fails
    with entry' show ?thesis by blast
  next
    case inner_fails
    with entry' show ?thesis by blast
  next
    case (continues cn u m env1)
    have g1: "gravityFieldModel (bodies env1 e) = None"
      using body2IteratorLoop_gravityFieldModel [OF continues(4), of e] Cons.prems(6)
      by simp
    have "(un, forBody) \<noteq> entry'"
    proof
      assume same: "(un, forBody) = entry'"
      with entry' Cons.prems(2) have "(en, l) \<in> set forBody'" by simp
      from body2IteratorLoop_fails_request [where order = order and bodyMap = bodyMap and env = env
          and u = u and un = un'
          and c = "if isFrameInertial cn then None else bodyMap cn" and cn = cn
          and acc = "[]", OF this Cons.prems(3) Cons.prems(4) Cons.prems(5) Cons.prems(6)]
        continues(4)
      show False by simp
    qed
    with Cons.prems(1) have "(un, forBody) \<in> set selected" by auto
    from Cons.IH [OF this Cons.prems(2) Cons.prems(3) Cons.prems(4) Cons.prems(5) g1]
      continues(5) entry'
    show ?thesis by simp
  qed
qed

subsection \<open>A run up to one of its entries\<close>

text \<open>
  Each loop runs the entries of its list from the first to the last: the run over a list
  in two parts is the run over the first part and, if that returned, the run over the
  second part from the store and the map that the first part left.
\<close>

lemma accelerationListLoop_append:
  "accelerationListLoop order env u e un en c cn (xs @ ys) acc =
     (case accelerationListLoop order env u e un en c cn xs acc of
        (Inl err, env') \<Rightarrow> (Inl err, env')
      | (Inr acc', env') \<Rightarrow> accelerationListLoop order env' u e un en c cn ys acc')"
  by (induction xs arbitrary: env acc) (auto split: prod.splits sum.splits)

lemma body2IteratorLoop_append:
  "body2IteratorLoop order env bodyMap u un c cn (xs @ ys) acc =
     (case body2IteratorLoop order env bodyMap u un c cn xs acc of
        (Inl err, env') \<Rightarrow> (Inl err, env')
      | (Inr acc', env') \<Rightarrow> body2IteratorLoop order env' bodyMap u un c cn ys acc')"
  by (induction xs arbitrary: env acc) (auto split: prod.splits sum.splits option.splits)

lemma bodyIteratorLoop_append:
  "bodyIteratorLoop order env bodyMap centralBodies (xs @ ys) acc =
     (case bodyIteratorLoop order env bodyMap centralBodies xs acc of
        (Inl err, env') \<Rightarrow> (Inl err, env')
      | (Inr acc', env') \<Rightarrow> bodyIteratorLoop order env' bodyMap centralBodies ys acc')"
  by (induction xs arbitrary: env acc)
     (auto split: prod.splits sum.splits option.splits if_splits)

lemma accelerationListLoop_prefix_fails:
  "accelerationListLoop order env u e un en c cn xs acc = (Inl err, env1) \<Longrightarrow>
   accelerationListLoop order env u e un en c cn (xs @ ys) acc = (Inl err, env1)"
  by (simp add: accelerationListLoop_append)

lemma accelerationListLoop_entry_fails:
  "accelerationListLoop order env u e un en c cn xs acc = (Inr acc', env1) \<Longrightarrow>
   createAccelerationModel order env1 u e s un en c cn = (Inl err, env2) \<Longrightarrow>
   accelerationListLoop order env u e un en c cn (xs @ s # ys) acc = (Inl err, env2)"
  by (simp add: accelerationListLoop_append)

lemma body2IteratorLoop_prefix_fails:
  "body2IteratorLoop order env bodyMap u un c cn (fbBefore @ [(en, lBefore)]) acc =
     (Inl err, env1) \<Longrightarrow>
   body2IteratorLoop order env bodyMap u un c cn
     (fbBefore @ (en, lBefore @ ys) # fbAfter) acc = (Inl err, env1)"
  by (auto simp add: body2IteratorLoop_append accelerationListLoop_append
      split: prod.splits sum.splits option.splits)

lemma body2IteratorLoop_entry_fails:
  "body2IteratorLoop order env bodyMap u un c cn (fbBefore @ [(en, lBefore)]) acc =
     (Inr m, env1) \<Longrightarrow>
   \<exists>e. bodyMap en = Some e \<and>
       (\<forall>err env2.
          createAccelerationModel order env1 u e s un en c cn = (Inl err, env2) \<longrightarrow>
          body2IteratorLoop order env bodyMap u un c cn
            (fbBefore @ (en, lBefore @ s # lAfter) # fbAfter) acc = (Inl err, env2))"
  by (auto simp add: body2IteratorLoop_append accelerationListLoop_append
      split: prod.splits sum.splits option.splits)

text \<open>The turn of one undergoing body, as the last of a run and in the middle of one.\<close>

lemma bodyIteratorLoop_turn:
  "bodyIteratorLoop order env bodyMap centralBodies ((un, forBody) # rest) acc =
     (case centralBodies un of
        None \<Rightarrow> (Inl out_of_range, env)
      | Some cn \<Rightarrow>
          if \<not> isFrameInertial cn \<and> bodyMap cn = None then
            (Inl (CentralBodyNotFound cn un), env)
          else
            (case bodyMap un of
               None \<Rightarrow> (Inl (UndergoingBodyNotFound un), env)
             | Some u \<Rightarrow>
                 (case body2IteratorLoop order env bodyMap u un
                         (if isFrameInertial cn then None else bodyMap cn) cn forBody [] of
                    (Inl err, env') \<Rightarrow> (Inl err, env')
                  | (Inr m, env') \<Rightarrow>
                      bodyIteratorLoop order env' bodyMap centralBodies rest
                        (AList.update un m acc))))"
  by (rule bodyIteratorLoop_step)

lemma bodyIteratorLoop_turn_prefix_fails:
  assumes "bodyIteratorLoop order env bodyMap centralBodies
      [(un, fbBefore @ [(en, lBefore)])] acc = (Inl err, env1)"
  shows "bodyIteratorLoop order env bodyMap centralBodies
      ((un, fbBefore @ (en, lBefore @ ys) # fbAfter) # after) acc = (Inl err, env1)"
proof (cases "centralBodies un")
  case None
  with assms show ?thesis by simp
next
  case cn: (Some cn)
  show ?thesis
  proof (cases "\<not> isFrameInertial cn \<and> bodyMap cn = None")
    case True
    with assms cn show ?thesis by simp
  next
    case ok: False
    show ?thesis
    proof (cases "bodyMap un")
      case None
      with assms cn ok show ?thesis
        by (auto simp add: bodyIteratorLoop_turn simp del: bodyIteratorLoop.simps)
    next
      case u: (Some u)
      obtain r envP where inner:
        "body2IteratorLoop order env bodyMap u un
           (if isFrameInertial cn then None else bodyMap cn) cn
           (fbBefore @ [(en, lBefore)]) [] = (r, envP)"
        by (cases "body2IteratorLoop order env bodyMap u un
           (if isFrameInertial cn then None else bodyMap cn) cn
           (fbBefore @ [(en, lBefore)]) []")
      from assms cn ok u inner have r: "r = Inl err" and envP: "envP = env1"
        by (auto simp add: bodyIteratorLoop_turn simp del: bodyIteratorLoop.simps(2)
            split: sum.splits)
      from body2IteratorLoop_prefix_fails [OF inner [unfolded r envP],
          where ys = ys and fbAfter = fbAfter] cn ok u
      show ?thesis
        by (auto simp add: bodyIteratorLoop_turn simp del: bodyIteratorLoop.simps)
    qed
  qed
qed

lemma bodyIteratorLoop_turn_entry_fails:
  assumes "bodyIteratorLoop order env bodyMap centralBodies
      [(un, fbBefore @ [(en, lBefore)])] acc = (Inr m, env1)"
  shows "\<exists>u e cn.
     bodyMap un = Some u \<and> bodyMap en = Some e \<and> centralBodies un = Some cn \<and>
     (\<forall>err env2.
        createAccelerationModel order env1 u e s un en
          (if isFrameInertial cn then None else bodyMap cn) cn = (Inl err, env2) \<longrightarrow>
        bodyIteratorLoop order env bodyMap centralBodies
          ((un, fbBefore @ (en, lBefore @ s # lAfter) # fbAfter) # after) acc =
          (Inl err, env2))"
proof (cases "centralBodies un")
  case None
  with assms show ?thesis by simp
next
  case cn: (Some cn)
  show ?thesis
  proof (cases "\<not> isFrameInertial cn \<and> bodyMap cn = None")
    case True
    with assms cn show ?thesis by simp
  next
    case ok: False
    show ?thesis
    proof (cases "bodyMap un")
      case None
      with assms cn ok show ?thesis
        by (auto simp add: bodyIteratorLoop_turn simp del: bodyIteratorLoop.simps)
    next
      case u: (Some u)
      obtain r envP where inner:
        "body2IteratorLoop order env bodyMap u un
           (if isFrameInertial cn then None else bodyMap cn) cn
           (fbBefore @ [(en, lBefore)]) [] = (r, envP)"
        by (cases "body2IteratorLoop order env bodyMap u un
           (if isFrameInertial cn then None else bodyMap cn) cn
           (fbBefore @ [(en, lBefore)]) []")
      from assms cn ok u inner obtain m' where r: "r = Inr m'" and envP: "envP = env1"
        by (auto simp add: bodyIteratorLoop_turn simp del: bodyIteratorLoop.simps(2)
            split: sum.splits)
      from body2IteratorLoop_entry_fails [OF inner [unfolded r envP],
          where s = s and lAfter = lAfter and fbAfter = fbAfter]
      obtain e where e: "bodyMap en = Some e"
        and build: "\<And>err env2.
          createAccelerationModel order env1 u e s un en
            (if isFrameInertial cn then None else bodyMap cn) cn = (Inl err, env2) \<Longrightarrow>
          body2IteratorLoop order env bodyMap u un
            (if isFrameInertial cn then None else bodyMap cn) cn
            (fbBefore @ (en, lBefore @ s # lAfter) # fbAfter) [] = (Inl err, env2)"
        by blast
      have "bodyIteratorLoop order env bodyMap centralBodies
          ((un, fbBefore @ (en, lBefore @ s # lAfter) # fbAfter) # after) acc =
          (Inl err, env2)"
        if "createAccelerationModel order env1 u e s un en
            (if isFrameInertial cn then None else bodyMap cn) cn = (Inl err, env2)"
        for err env2
        using build [OF that] cn ok u
        by (auto simp add: bodyIteratorLoop_turn simp del: bodyIteratorLoop.simps)
      with u e cn show ?thesis by blast
    qed
  qed
qed

lemma bodyIteratorLoop_prefix_fails:
  assumes "bodyIteratorLoop order env bodyMap centralBodies
      (before @ [(un, fbBefore @ [(en, lBefore)])]) acc = (Inl err, env1)"
  shows "bodyIteratorLoop order env bodyMap centralBodies
      (before @ (un, fbBefore @ (en, lBefore @ ys) # fbAfter) # after) acc = (Inl err, env1)"
proof -
  obtain r envA where before:
    "bodyIteratorLoop order env bodyMap centralBodies before acc = (r, envA)"
    by (cases "bodyIteratorLoop order env bodyMap centralBodies before acc")
  show ?thesis
  proof (cases r)
    case (Inl err')
    with assms before show ?thesis by (simp add: bodyIteratorLoop_append)
  next
    case (Inr acc1)
    with assms before have "bodyIteratorLoop order envA bodyMap centralBodies
        [(un, fbBefore @ [(en, lBefore)])] acc1 = (Inl err, env1)"
      by (simp add: bodyIteratorLoop_append)
    from bodyIteratorLoop_turn_prefix_fails [OF this, where ys = ys
        and fbAfter = fbAfter and after = after] before Inr
    show ?thesis by (simp add: bodyIteratorLoop_append)
  qed
qed

lemma bodyIteratorLoop_entry_fails:
  assumes "bodyIteratorLoop order env bodyMap centralBodies
      (before @ [(un, fbBefore @ [(en, lBefore)])]) acc = (Inr m, env1)"
  shows "\<exists>u e cn.
     bodyMap un = Some u \<and> bodyMap en = Some e \<and> centralBodies un = Some cn \<and>
     (\<forall>err env2.
        createAccelerationModel order env1 u e s un en
          (if isFrameInertial cn then None else bodyMap cn) cn = (Inl err, env2) \<longrightarrow>
        bodyIteratorLoop order env bodyMap centralBodies
          (before @ (un, fbBefore @ (en, lBefore @ s # lAfter) # fbAfter) # after) acc =
          (Inl err, env2))"
proof -
  obtain r envA where before:
    "bodyIteratorLoop order env bodyMap centralBodies before acc = (r, envA)"
    by (cases "bodyIteratorLoop order env bodyMap centralBodies before acc")
  show ?thesis
  proof (cases r)
    case (Inl err')
    with assms before show ?thesis by (simp add: bodyIteratorLoop_append)
  next
    case (Inr acc1)
    with assms before have "bodyIteratorLoop order envA bodyMap centralBodies
        [(un, fbBefore @ [(en, lBefore)])] acc1 = (Inr m, env1)"
      by (simp add: bodyIteratorLoop_append)
    from bodyIteratorLoop_turn_entry_fails [OF this, where s = s and lAfter = lAfter
        and fbAfter = fbAfter and after = after] before Inr
    show ?thesis by (simp add: bodyIteratorLoop_append)
  qed
qed

text \<open>A run up to a name that the body map does not hold.\<close>

lemma bodyIteratorLoop_undergoing_absent:
  assumes "centralBodies un = None \<or>
      (\<exists>cn. centralBodies un = Some cn \<and> \<not> isFrameInertial cn \<and> bodyMap cn = None) \<or>
      bodyMap un = None"
  shows "bodyIteratorLoop order env bodyMap centralBodies
      (before @ (un, forBody) # after) acc =
      (case bodyIteratorLoop order env bodyMap centralBodies before acc of
         (Inl err, env1) \<Rightarrow> (Inl err, env1)
       | (Inr m, env1) \<Rightarrow> (Inl (lookupErrorOfUndergoingBody bodyMap centralBodies un), env1))"
  using assms
  by (auto simp add: bodyIteratorLoop_append bodyIteratorLoop_turn
      lookupErrorOfUndergoingBody_def
      simp del: bodyIteratorLoop.simps split: prod.splits sum.splits option.splits)

lemma body2IteratorLoop_exerting_absent:
  assumes "bodyMap en = None"
  shows "body2IteratorLoop order env bodyMap u un c cn (fbBefore @ (en, l) # fbAfter) acc =
      (case body2IteratorLoop order env bodyMap u un c cn fbBefore acc of
         (Inl err, env1) \<Rightarrow> (Inl err, env1)
       | (Inr m, env1) \<Rightarrow> (Inl (ExertingBodyNotFound un en), env1))"
  using assms
  by (auto simp add: body2IteratorLoop_append split: prod.splits sum.splits)

lemma bodyIteratorLoop_exerting_absent:
  assumes "bodyMap en = None"
  shows "bodyIteratorLoop order env bodyMap centralBodies
      (before @ (un, fbBefore @ (en, l) # fbAfter) # after) acc =
      (case bodyIteratorLoop order env bodyMap centralBodies
              (before @ [(un, fbBefore)]) acc of
         (Inl err, env1) \<Rightarrow> (Inl err, env1)
       | (Inr m, env1) \<Rightarrow> (Inl (ExertingBodyNotFound un en), env1))"
proof -
  obtain r envA where before:
    "bodyIteratorLoop order env bodyMap centralBodies before acc = (r, envA)"
    by (cases "bodyIteratorLoop order env bodyMap centralBodies before acc")
  show ?thesis
  proof (cases r)
    case (Inl err')
    with before show ?thesis by (simp add: bodyIteratorLoop_append)
  next
    case (Inr acc1)
    have "bodyIteratorLoop order envA bodyMap centralBodies
        ((un, fbBefore @ (en, l) # fbAfter) # after) acc1 =
        (case bodyIteratorLoop order envA bodyMap centralBodies [(un, fbBefore)] acc1 of
           (Inl err, env1) \<Rightarrow> (Inl err, env1)
         | (Inr m, env1) \<Rightarrow> (Inl (ExertingBodyNotFound un en), env1))"
      by (auto simp add: bodyIteratorLoop_turn
          body2IteratorLoop_exerting_absent [where bodyMap = bodyMap and en = en, OF assms]
          simp del: bodyIteratorLoop.simps(2) split: prod.splits sum.splits option.splits)
    with before Inr show ?thesis by (simp add: bodyIteratorLoop_append)
  qed
qed

subsection \<open>A central-gravity request on a body without gravity field\<close>

lemma message_names_both:
  "sublist x (what lexical_cast (GravityFieldModelNotSet en x)) \<and>
   sublist en (what lexical_cast (GravityFieldModelNotSet en x))"
proof
  show "sublist x (what lexical_cast (GravityFieldModelNotSet en x))"
    unfolding sublist_def what.simps
    by (rule exI [of _ "''Error, gravity field model not set when making central '' @
          '' gravitational acceleration of '' @ en @ '' on ''"], rule exI [of _ "[]"]) simp
  show "sublist en (what lexical_cast (GravityFieldModelNotSet en x))"
    unfolding sublist_def what.simps
    by (rule exI [of _ "''Error, gravity field model not set when making central '' @
          '' gravitational acceleration of ''"], rule exI [of _ "'' on '' @ x"]) simp
qed

lemma run_reaches_central_request:
  assumes "accelerationType s = central_gravity"
    and "gravityFieldModel (bodies env e) = None"
    and "bodyMap en = Some e" and "centralBodies un = Some cn"
  shows "createAccelerationModelsMap order env bodyMap
      (before @ (un, fbBefore @ (en, lBefore @ s # lAfter) # fbAfter) # after)
      centralBodies =
      (case createAccelerationModelsMap order env bodyMap
              (before @ [(un, fbBefore @ [(en, lBefore)])]) centralBodies of
         (Inl err, env1) \<Rightarrow> (Inl err, env1)
       | (Inr m, env1) \<Rightarrow>
           (Inl (GravityFieldModelNotSet en (nameOfBodyInMessage order un en cn)), env1))"
proof -
  obtain r env1 where prefix:
    "bodyIteratorLoop order env bodyMap centralBodies
       (before @ [(un, fbBefore @ [(en, lBefore)])]) [] = (r, env1)"
    by (cases "bodyIteratorLoop order env bodyMap centralBodies
       (before @ [(un, fbBefore @ [(en, lBefore)])]) []")
  show ?thesis
  proof (cases r)
    case (Inl err)
    with prefix bodyIteratorLoop_prefix_fails [OF prefix [unfolded Inl],
        where ys = "s # lAfter" and fbAfter = fbAfter and after = after]
    show ?thesis by (simp add: createAccelerationModelsMap_def)
  next
    case (Inr m)
    from bodyIteratorLoop_entry_fails [OF prefix [unfolded Inr], where s = s
        and lAfter = lAfter and fbAfter = fbAfter and after = after] assms(3,4)
    obtain u where build: "\<And>err env2.
        createAccelerationModel order env1 u e s un en
          (if isFrameInertial cn then None else bodyMap cn) cn = (Inl err, env2) \<Longrightarrow>
        bodyIteratorLoop order env bodyMap centralBodies
          (before @ (un, fbBefore @ (en, lBefore @ s # lAfter) # fbAfter) # after) [] =
          (Inl err, env2)"
      by auto
    have "gravityFieldModel (bodies env1 e) = None"
      using bodyIteratorLoop_gravityFieldModel [OF prefix, of e] assms(2) by simp
    from build [OF central_request_fails [OF assms(1) this]] prefix Inr
    show ?thesis by (simp add: createAccelerationModelsMap_def)
  qed
qed

text \<open>
  Claim C9 as stated: when the exerting body of a central-gravity request has no gravity
  field model, the error names the undergoing and the exerting body. For a third-body
  request it need not: the two direct builds are arguments of one call, and where the
  build for the central body is evaluated first, the request of the probe around Earth
  for the gravity of Jupiter raises "... of Jupiter on Earth", which does not name the
  probe.
\<close>

theorem message_names_central_body_counterexample:
  "accelerationType (AccelerationSettings central_gravity) = central_gravity \<and>
   gravityFieldModel (bodies exampleEnvironment 3) = None \<and>
   createAccelerationModel right_to_left exampleEnvironment 1 3
     (AccelerationSettings central_gravity) ''Probe'' ''Jupiter'' (Some 0) ''Earth'' =
     (Inl (GravityFieldModelNotSet ''Jupiter'' ''Earth''), exampleEnvironment) \<and>
   createAccelerationModelsMap right_to_left exampleEnvironment exampleBodyMap
     [(''Probe'', [(''Jupiter'', [AccelerationSettings central_gravity])])]
     (exampleCentralBodies(''Probe'' \<mapsto> ''Earth'')) =
     (Inl (GravityFieldModelNotSet ''Jupiter'' ''Earth''), exampleEnvironment) \<and>
   what (\<lambda>t. ''1'') (GravityFieldModelNotSet ''Jupiter'' ''Earth'') =
     ''Error, gravity field model not set when making central  gravitational acceleration of Jupiter on Earth'' \<and>
   \<not> sublist ''Probe''
     ''Error, gravity field model not set when making central  gravitational acceleration of Jupiter on Earth''"
proof -
  have request: "createAccelerationModel right_to_left exampleEnvironment 1 3
      (AccelerationSettings central_gravity) ''Probe'' ''Jupiter'' (Some 0) ''Earth'' =
      (Inl (GravityFieldModelNotSet ''Jupiter'' ''Earth''), exampleEnvironment)"
    by (simp add: createAccelerationModel_def isFrameInertial_def
        createThirdBodyCentralGravityAccelerationModel_def
        createCentralGravityAcceleratioModel_def example_defs)
  have run: "createAccelerationModelsMap right_to_left exampleEnvironment exampleBodyMap
      [(''Probe'', [(''Jupiter'', [AccelerationSettings central_gravity])])]
      (exampleCentralBodies(''Probe'' \<mapsto> ''Earth'')) =
      (Inl (GravityFieldModelNotSet ''Jupiter'' ''Earth''), exampleEnvironment)"
    by (simp add: createAccelerationModelsMap_def createAccelerationModel_def
        isFrameInertial_def createThirdBodyCentralGravityAccelerationModel_def
        createCentralGravityAcceleratioModel_def example_defs)
  have message: "what (\<lambda>t. ''1'') (GravityFieldModelNotSet ''Jupiter'' ''Earth'') =
      ''Error, gravity field model not set when making central  gravitational acceleration of Jupiter on Earth''"
    by simp
  have absent: "\<not> sublist ''Probe''
      ''Error, gravity field model not set when making central  gravitational acceleration of Jupiter on Earth''"
    by code_simp
  have field: "gravityFieldModel (bodies exampleEnvironment 3) = None"
    by (simp add: example_defs)
  from request run message absent field show ?thesis by simp
qed

text \<open>
  Claim C9 as amended: if the exerting body of a central-gravity request has no gravity
  field model, the build of the request raises a missing-capability error and changes
  nothing. Its message names the exerting body and the body of the direct build that
  raised: the undergoing body for a direct request and, for a third-body request, the
  undergoing body where the arguments are evaluated from left to right and the central
  body where they are evaluated from right to left. \<^verbatim>\<open>createAccelerationModelsMap\<close>
  returns no map for a run that contains the request: the run ends at its first failure,
  which is this error, in the store left by the entries before the request, when all of
  them succeed, and the failure of the earliest of them that fails otherwise.
\<close>

theorem missing_gravity_field_aborts:
  assumes "accelerationType s = central_gravity"
    and "gravityFieldModel (bodies env e) = None"
  shows "createAccelerationModel order env u e s un en c cn =
           (Inl (GravityFieldModelNotSet en (nameOfBodyInMessage order un en cn)), env) \<and>
         error_class_of (GravityFieldModelNotSet en (nameOfBodyInMessage order un en cn)) =
           MissingCapabilityError \<and>
         sublist en
           (what lexical_cast
              (GravityFieldModelNotSet en (nameOfBodyInMessage order un en cn))) \<and>
         sublist (nameOfBodyInMessage order un en cn)
           (what lexical_cast
              (GravityFieldModelNotSet en (nameOfBodyInMessage order un en cn))) \<and>
         (cn = en \<or> isFrameInertial cn \<or> order = left_to_right \<longrightarrow>
            nameOfBodyInMessage order un en cn = un) \<and>
         (cn \<noteq> en \<and> \<not> isFrameInertial cn \<and> order = right_to_left \<longrightarrow>
            nameOfBodyInMessage order un en cn = cn) \<and>
         (\<forall>bodyMap centralBodies selected forBody l.
            (un, forBody) \<in> set selected \<and> (en, l) \<in> set forBody \<and> s \<in> set l \<and>
            bodyMap en = Some e \<longrightarrow>
            (\<exists>err env'. createAccelerationModelsMap order env bodyMap selected
                          centralBodies = (Inl err, env'))) \<and>
         (\<forall>bodyMap centralBodies central before fbBefore lBefore lAfter fbAfter after.
            bodyMap en = Some e \<and> centralBodies un = Some central \<longrightarrow>
            createAccelerationModelsMap order env bodyMap
              (before @ (un, fbBefore @ (en, lBefore @ s # lAfter) # fbAfter) # after)
              centralBodies =
              (case createAccelerationModelsMap order env bodyMap
                      (before @ [(un, fbBefore @ [(en, lBefore)])]) centralBodies of
                 (Inl err, env1) \<Rightarrow> (Inl err, env1)
               | (Inr m, env1) \<Rightarrow>
                   (Inl (GravityFieldModelNotSet en
                           (nameOfBodyInMessage order un en central)), env1)))"
proof -
  note request = central_request_fails [OF assms, of order u un en c cn]
  note names = message_names_both [of "nameOfBodyInMessage order un en cn" lexical_cast en]
  have undergoing: "cn = en \<or> isFrameInertial cn \<or> order = left_to_right \<longrightarrow>
      nameOfBodyInMessage order un en cn = un"
    by (auto simp add: nameOfBodyInMessage_def)
  have central: "cn \<noteq> en \<and> \<not> isFrameInertial cn \<and> order = right_to_left \<longrightarrow>
      nameOfBodyInMessage order un en cn = cn"
    by (auto simp add: nameOfBodyInMessage_def)
  have contains: "\<exists>err env'. createAccelerationModelsMap order env bodyMap selected
      centralBodies = (Inl err, env')"
    if "(un, forBody) \<in> set selected" "(en, l) \<in> set forBody" "s \<in> set l"
      "bodyMap en = Some e"
    for bodyMap centralBodies selected forBody l
    unfolding createAccelerationModelsMap_def
    using bodyIteratorLoop_fails_request [where order = order and bodyMap = bodyMap
        and env = env, OF that(1) that(2) that(3) assms(1) that(4) assms(2)]
    by blast
  have reached: "createAccelerationModelsMap order env bodyMap
      (before @ (un, fbBefore @ (en, lBefore @ s # lAfter) # fbAfter) # after)
      centralBodies =
      (case createAccelerationModelsMap order env bodyMap
              (before @ [(un, fbBefore @ [(en, lBefore)])]) centralBodies of
         (Inl err, env1) \<Rightarrow> (Inl err, env1)
       | (Inr m, env1) \<Rightarrow>
           (Inl (GravityFieldModelNotSet en
                   (nameOfBodyInMessage order un en central)), env1))"
    if "bodyMap en = Some e" "centralBodies un = Some central"
    for bodyMap centralBodies central before fbBefore lBefore lAfter fbAfter after
    by (rule run_reaches_central_request [where bodyMap = bodyMap
          and centralBodies = centralBodies and s = s and env = env and e = e
          and en = en and un = un and cn = central, OF assms that])
  have kind: "error_class_of
      (GravityFieldModelNotSet en (nameOfBodyInMessage order un en cn)) =
      MissingCapabilityError"
    by simp
  from request kind names undergoing central contains reached show ?thesis
    by (intro conjI) blast+
qed

text \<open>
  The probe (1) with two exerting bodies, Earth for an aerodynamic model and Jupiter (3),
  which has no gravity field, for central gravity; the central body of the probe is the
  inertial frame SSB. The aerodynamic model is built, then the request for Jupiter ends
  the run with the error that names Jupiter and the probe.
\<close>

theorem missing_gravity_field_aborts_witness:
  "accelerationType (AccelerationSettings central_gravity) = central_gravity \<and>
   gravityFieldModel (bodies exampleEnvironment 3) = None \<and>
   inIterationOrder
     [(''Probe'', [(''Earth'', [AccelerationSettings aerodynamic]),
                   (''Jupiter'', [AccelerationSettings central_gravity])])] \<and>
   (\<forall>order.
      createAccelerationModelsMap order exampleEnvironment exampleBodyMap
        [(''Probe'', [(''Earth'', [AccelerationSettings aerodynamic]),
                      (''Jupiter'', [AccelerationSettings central_gravity])])]
        exampleCentralBodies =
        (Inl (GravityFieldModelNotSet ''Jupiter'' ''Probe''),
         \<lparr>bodies = exampleBodies(1 := (exampleBodies 1)\<lparr>flightConditions := Some 0\<rparr>),
          flightConditionsObjects = [(1, 0, ''Probe'', ''Earth'')]\<rparr>)) \<and>
   sublist ''Probe'' (what (\<lambda>t. ''1'') (GravityFieldModelNotSet ''Jupiter'' ''Probe'')) \<and>
   sublist ''Jupiter'' (what (\<lambda>t. ''1'') (GravityFieldModelNotSet ''Jupiter'' ''Probe''))"
proof -
  have tag: "accelerationType (AccelerationSettings central_gravity) = central_gravity"
    by simp
  have field: "gravityFieldModel (bodies exampleEnvironment 3) = None"
    by (simp add: example_defs)
  have sorted: "inIterationOrder
      [(''Probe'', [(''Earth'', [AccelerationSettings aerodynamic]),
                    (''Jupiter'', [AccelerationSettings central_gravity])])]"
    by (simp add: inIterationOrder_def)
  have name: "nameOfBodyInMessage order ''Probe'' ''Jupiter'' ''SSB'' = ''Probe''" for order
    by (simp add: nameOfBodyInMessage_def isFrameInertial_def)
  have before: "createAccelerationModelsMap order exampleEnvironment exampleBodyMap
      ([] @ [(''Probe'', [(''Earth'', [AccelerationSettings aerodynamic])] @
                          [(''Jupiter'', [])])])
      exampleCentralBodies =
      (Inr [(''Probe'', [(''Earth'',
               [Aerodynamic (AerodynamicAcceleration
                  (AerodynamicCoefficientInterface True True) 0 0 1
                  (AerodynamicCoefficientInterface True True) True)])])],
       \<lparr>bodies = exampleBodies(1 := (exampleBodies 1)\<lparr>flightConditions := Some 0\<rparr>),
        flightConditionsObjects = [(1, 0, ''Probe'', ''Earth'')]\<rparr>)" for order
    by (simp add: createAccelerationModelsMap_def createAccelerationModel_def
        createAerodynamicAcceleratioModel_def createFlightConditions_def
        setFlightConditions_def isFrameInertial_def push_back_at_def example_defs)
  have maps: "exampleBodyMap ''Jupiter'' = Some 3 \<and>
      exampleCentralBodies ''Probe'' = Some ''SSB''"
    by (simp add: example_defs)
  have run: "createAccelerationModelsMap order exampleEnvironment exampleBodyMap
      [(''Probe'', [(''Earth'', [AccelerationSettings aerodynamic]),
                    (''Jupiter'', [AccelerationSettings central_gravity])])]
      exampleCentralBodies =
      (Inl (GravityFieldModelNotSet ''Jupiter'' ''Probe''),
       \<lparr>bodies = exampleBodies(1 := (exampleBodies 1)\<lparr>flightConditions := Some 0\<rparr>),
        flightConditionsObjects = [(1, 0, ''Probe'', ''Earth'')]\<rparr>)" for order
  proof -
    from missing_gravity_field_aborts [OF tag field, where order = order
        and un = "''Probe''" and en = "''Jupiter''" and cn = "''SSB''"] maps
    have "createAccelerationModelsMap order exampleEnvironment exampleBodyMap
        ([] @ (''Probe'', [(''Earth'', [AccelerationSettings aerodynamic])] @
                 (''Jupiter'', [] @ AccelerationSettings central_gravity # []) # []) # [])
        exampleCentralBodies =
        (case createAccelerationModelsMap order exampleEnvironment exampleBodyMap
                ([] @ [(''Probe'', [(''Earth'', [AccelerationSettings aerodynamic])] @
                                    [(''Jupiter'', [])])])
                exampleCentralBodies of
           (Inl err, env1) \<Rightarrow> (Inl err, env1)
         | (Inr m, env1) \<Rightarrow>
             (Inl (GravityFieldModelNotSet ''Jupiter''
                     (nameOfBodyInMessage order ''Probe'' ''Jupiter'' ''SSB'')), env1))"
      by blast
    then show ?thesis
      unfolding before name by simp
  qed
  from missing_gravity_field_aborts [OF tag field, where order = left_to_right
      and un = "''Probe''" and en = "''Jupiter''" and cn = "''SSB''"
      and lexical_cast = "\<lambda>t. ''1''"] name
  have names: "sublist ''Probe''
      (what (\<lambda>t. ''1'') (GravityFieldModelNotSet ''Jupiter'' ''Probe'')) \<and>
    sublist ''Jupiter'' (what (\<lambda>t. ''1'') (GravityFieldModelNotSet ''Jupiter'' ''Probe''))"
    by (simp del: what.simps)
  from tag field sorted run names show ?thesis by blast
qed

subsection \<open>Names that the body map does not hold\<close>

lemma lookupErrorOfUndergoingBody_class:
  "error_class_of (lookupErrorOfUndergoingBody bodyMap centralBodies un) = LookupError"
  by (simp add: lookupErrorOfUndergoingBody_def split: option.splits)

text \<open>
  Claim C6 as stated: when a name that the run refers to is absent from the body map,
  \<^verbatim>\<open>createAccelerationModelsMap\<close> fails with a lookup error before any acceleration
  model of the run is constructed. It does not: in the run below, whose entries are in
  the order of their keys, the body Zond is absent, and the lookup error for it is raised
  only after the aerodynamic model of the probe has been constructed, which has created
  a FlightConditions object and attached it to the probe. The run has no third-body
  request, so the order in which arguments are evaluated makes no difference.
\<close>

theorem lookup_after_construction_counterexample:
  "entryNameAbsent exampleBodyMap exampleCentralBodies
     (''Zond'', [(''Earth'', [AccelerationSettings central_gravity])]) \<and>
   inIterationOrder
     [(''Probe'', [(''Earth'', [AccelerationSettings aerodynamic])]),
      (''Zond'', [(''Earth'', [AccelerationSettings central_gravity])])] \<and>
   createAccelerationModel left_to_right exampleEnvironment 1 0
     (AccelerationSettings aerodynamic) ''Probe'' ''Earth'' None ''SSB'' =
     (Inr (Aerodynamic (AerodynamicAcceleration (AerodynamicCoefficientInterface True True)
             0 0 1 (AerodynamicCoefficientInterface True True) True)),
      \<lparr>bodies = exampleBodies(1 := (exampleBodies 1)\<lparr>flightConditions := Some 0\<rparr>),
       flightConditionsObjects = [(1, 0, ''Probe'', ''Earth'')]\<rparr>) \<and>
   createAccelerationModelsMap left_to_right exampleEnvironment exampleBodyMap
     [(''Probe'', [(''Earth'', [AccelerationSettings aerodynamic])]),
      (''Zond'', [(''Earth'', [AccelerationSettings central_gravity])])]
     exampleCentralBodies =
     (Inl (UndergoingBodyNotFound ''Zond''),
      \<lparr>bodies = exampleBodies(1 := (exampleBodies 1)\<lparr>flightConditions := Some 0\<rparr>),
       flightConditionsObjects = [(1, 0, ''Probe'', ''Earth'')]\<rparr>) \<and>
   createAccelerationModelsMap right_to_left exampleEnvironment exampleBodyMap
     [(''Probe'', [(''Earth'', [AccelerationSettings aerodynamic])]),
      (''Zond'', [(''Earth'', [AccelerationSettings central_gravity])])]
     exampleCentralBodies =
     (Inl (UndergoingBodyNotFound ''Zond''),
      \<lparr>bodies = exampleBodies(1 := (exampleBodies 1)\<lparr>flightConditions := Some 0\<rparr>),
       flightConditionsObjects = [(1, 0, ''Probe'', ''Earth'')]\<rparr>) \<and>
   flightConditions (bodies exampleEnvironment 1) = None"
  by (simp add: createAccelerationModelsMap_def createAccelerationModel_def
      createAerodynamicAcceleratioModel_def createFlightConditions_def
      setFlightConditions_def isFrameInertial_def push_back_at_def entryNameAbsent_def
      inIterationOrder_def example_defs)

text \<open>
  Claim C6 as amended: when a name that the run refers to (an undergoing body, an
  exerting body, or a central body that is not an inertial frame) is absent from the body
  map, \<^verbatim>\<open>createAccelerationModelsMap\<close> fails and returns no map. A name is looked up
  when the iteration reaches it, and the run ends at its first failure. If the entries
  before the absent name are all looked up and built, the failure is the lookup error for
  that name, raised in the store that those builds have left: the models of the pairs
  before it have been constructed by then. Otherwise the run has ended with the earlier
  failure. When the absent name is the first undergoing body, its central body or its
  first exerting body, the failure is a lookup error and nothing has been constructed or
  changed.
\<close>

theorem absent_name_fails:
  assumes "entry \<in> set selected"
    and "entryNameAbsent bodyMap centralBodies entry"
  shows "(\<exists>err env'. createAccelerationModelsMap order env bodyMap selected centralBodies =
                       (Inl err, env')) \<and>
         (\<forall>un forBody rest.
            selected = (un, forBody) # rest \<and>
            (bodyMap un = None \<or>
             (\<exists>cn. centralBodies un = Some cn \<and> \<not> isFrameInertial cn \<and>
                   bodyMap cn = None) \<or>
             (\<exists>en l more. forBody = (en, l) # more \<and> bodyMap en = None)) \<longrightarrow>
            (\<exists>err. createAccelerationModelsMap order env bodyMap selected centralBodies =
                     (Inl err, env) \<and>
                   error_class_of err = LookupError)) \<and>
         (\<forall>before un forBody after.
            selected = before @ (un, forBody) # after \<and>
            (bodyMap un = None \<or>
             (\<exists>cn. centralBodies un = Some cn \<and> \<not> isFrameInertial cn \<and>
                   bodyMap cn = None)) \<longrightarrow>
            createAccelerationModelsMap order env bodyMap selected centralBodies =
              (case createAccelerationModelsMap order env bodyMap before centralBodies of
                 (Inl err, env1) \<Rightarrow> (Inl err, env1)
               | (Inr m, env1) \<Rightarrow>
                   (Inl (lookupErrorOfUndergoingBody bodyMap centralBodies un), env1)) \<and>
            error_class_of (lookupErrorOfUndergoingBody bodyMap centralBodies un) =
              LookupError) \<and>
         (\<forall>before un fbBefore en l fbAfter after.
            selected = before @ (un, fbBefore @ (en, l) # fbAfter) # after \<and>
            bodyMap en = None \<longrightarrow>
            createAccelerationModelsMap order env bodyMap selected centralBodies =
              (case createAccelerationModelsMap order env bodyMap
                      (before @ [(un, fbBefore)]) centralBodies of
                 (Inl err, env1) \<Rightarrow> (Inl err, env1)
               | (Inr m, env1) \<Rightarrow> (Inl (ExertingBodyNotFound un en), env1)) \<and>
            error_class_of (ExertingBodyNotFound un en) = LookupError)"
proof -
  from bodyIteratorLoop_fails_absent [OF assms]
  have fails: "\<exists>err env'. createAccelerationModelsMap order env bodyMap selected
      centralBodies = (Inl err, env')"
    by (simp add: createAccelerationModelsMap_def)
  have first: "\<forall>un forBody rest.
      selected = (un, forBody) # rest \<and>
      (bodyMap un = None \<or>
       (\<exists>cn. centralBodies un = Some cn \<and> \<not> isFrameInertial cn \<and> bodyMap cn = None) \<or>
       (\<exists>en l more. forBody = (en, l) # more \<and> bodyMap en = None)) \<longrightarrow>
      (\<exists>err. createAccelerationModelsMap order env bodyMap selected centralBodies =
               (Inl err, env) \<and>
             error_class_of err = LookupError)"
    by (auto simp add: createAccelerationModelsMap_def bodyIteratorLoop_step
        simp del: bodyIteratorLoop.simps split: option.splits)
  have undergoing: "createAccelerationModelsMap order env bodyMap selected centralBodies =
      (case createAccelerationModelsMap order env bodyMap before centralBodies of
         (Inl err, env1) \<Rightarrow> (Inl err, env1)
       | (Inr m, env1) \<Rightarrow>
           (Inl (lookupErrorOfUndergoingBody bodyMap centralBodies un), env1)) \<and>
      error_class_of (lookupErrorOfUndergoingBody bodyMap centralBodies un) = LookupError"
    if sel: "selected = before @ (un, forBody) # after"
      and absent: "bodyMap un = None \<or>
         (\<exists>cn. centralBodies un = Some cn \<and> \<not> isFrameInertial cn \<and> bodyMap cn = None)"
    for before un forBody after
  proof -
    from absent have "centralBodies un = None \<or>
        (\<exists>cn. centralBodies un = Some cn \<and> \<not> isFrameInertial cn \<and> bodyMap cn = None) \<or>
        bodyMap un = None"
      by (elim disjE) (rule disjI2, rule disjI2, assumption, rule disjI2, rule disjI1,
          assumption)
    from bodyIteratorLoop_undergoing_absent [where bodyMap = bodyMap
        and centralBodies = centralBodies and un = un, OF this]
    show ?thesis
      unfolding sel createAccelerationModelsMap_def
      by (simp only: lookupErrorOfUndergoingBody_class simp_thms)
  qed
  have exerting: "createAccelerationModelsMap order env bodyMap selected centralBodies =
      (case createAccelerationModelsMap order env bodyMap
              (before @ [(un, fbBefore)]) centralBodies of
         (Inl err, env1) \<Rightarrow> (Inl err, env1)
       | (Inr m, env1) \<Rightarrow> (Inl (ExertingBodyNotFound un en), env1)) \<and>
      error_class_of (ExertingBodyNotFound un en) = LookupError"
    if sel: "selected = before @ (un, fbBefore @ (en, l) # fbAfter) # after"
      and absent: "bodyMap en = None"
    for before un fbBefore en l fbAfter after
  proof -
    from bodyIteratorLoop_exerting_absent [where bodyMap = bodyMap and en = en, OF absent]
    show ?thesis
      unfolding sel createAccelerationModelsMap_def
      by (simp only: error_class_of.simps simp_thms)
  qed
  have reached_undergoing: "\<forall>before un forBody after.
      selected = before @ (un, forBody) # after \<and>
      (bodyMap un = None \<or>
       (\<exists>cn. centralBodies un = Some cn \<and> \<not> isFrameInertial cn \<and>
             bodyMap cn = None)) \<longrightarrow>
      createAccelerationModelsMap order env bodyMap selected centralBodies =
        (case createAccelerationModelsMap order env bodyMap before centralBodies of
           (Inl err, env1) \<Rightarrow> (Inl err, env1)
         | (Inr m, env1) \<Rightarrow>
             (Inl (lookupErrorOfUndergoingBody bodyMap centralBodies un), env1)) \<and>
      error_class_of (lookupErrorOfUndergoingBody bodyMap centralBodies un) =
        LookupError"
  proof (intro allI impI)
    fix before un forBody after
    assume a: "selected = before @ (un, forBody) # after \<and>
      (bodyMap un = None \<or>
       (\<exists>cn. centralBodies un = Some cn \<and> \<not> isFrameInertial cn \<and>
             bodyMap cn = None))"
    show "createAccelerationModelsMap order env bodyMap selected centralBodies =
        (case createAccelerationModelsMap order env bodyMap before centralBodies of
           (Inl err, env1) \<Rightarrow> (Inl err, env1)
         | (Inr m, env1) \<Rightarrow>
             (Inl (lookupErrorOfUndergoingBody bodyMap centralBodies un), env1)) \<and>
      error_class_of (lookupErrorOfUndergoingBody bodyMap centralBodies un) =
        LookupError"
      by (rule undergoing [OF conjunct1 [OF a] conjunct2 [OF a]])
  qed
  have reached_exerting: "\<forall>before un fbBefore en l fbAfter after.
      selected = before @ (un, fbBefore @ (en, l) # fbAfter) # after \<and>
      bodyMap en = None \<longrightarrow>
      createAccelerationModelsMap order env bodyMap selected centralBodies =
        (case createAccelerationModelsMap order env bodyMap
                (before @ [(un, fbBefore)]) centralBodies of
           (Inl err, env1) \<Rightarrow> (Inl err, env1)
         | (Inr m, env1) \<Rightarrow> (Inl (ExertingBodyNotFound un en), env1)) \<and>
      error_class_of (ExertingBodyNotFound un en) = LookupError"
  proof (intro allI impI)
    fix before un fbBefore en l fbAfter after
    assume a: "selected = before @ (un, fbBefore @ (en, l) # fbAfter) # after \<and>
      bodyMap en = None"
    show "createAccelerationModelsMap order env bodyMap selected centralBodies =
        (case createAccelerationModelsMap order env bodyMap
                (before @ [(un, fbBefore)]) centralBodies of
           (Inl err, env1) \<Rightarrow> (Inl err, env1)
         | (Inr m, env1) \<Rightarrow> (Inl (ExertingBodyNotFound un en), env1)) \<and>
      error_class_of (ExertingBodyNotFound un en) = LookupError"
      by (rule exerting [OF conjunct1 [OF a] conjunct2 [OF a]])
  qed
  show ?thesis
    by (rule conjI [OF fails conjI [OF first conjI [OF reached_undergoing
        reached_exerting]]])
qed

text \<open>
  Two runs whose entries are in the order of their keys. In the first the absent body,
  Apollo, is the first undergoing body: the run fails and changes nothing. In the second
  the absent body, Zond, comes after the probe: the lookup error for Zond is raised in
  the store that the aerodynamic build of the probe has left.
\<close>

theorem absent_name_fails_witness:
  "(''Apollo'', [(''Earth'', [AccelerationSettings central_gravity])]) \<in>
     set [(''Apollo'', [(''Earth'', [AccelerationSettings central_gravity])]),
          (''Probe'', [(''Earth'', [AccelerationSettings aerodynamic])])] \<and>
   entryNameAbsent exampleBodyMap exampleCentralBodies
     (''Apollo'', [(''Earth'', [AccelerationSettings central_gravity])]) \<and>
   inIterationOrder
     [(''Apollo'', [(''Earth'', [AccelerationSettings central_gravity])]),
      (''Probe'', [(''Earth'', [AccelerationSettings aerodynamic])])] \<and>
   (\<forall>order. \<exists>err.
      createAccelerationModelsMap order exampleEnvironment exampleBodyMap
        [(''Apollo'', [(''Earth'', [AccelerationSettings central_gravity])]),
         (''Probe'', [(''Earth'', [AccelerationSettings aerodynamic])])]
        exampleCentralBodies = (Inl err, exampleEnvironment) \<and>
      error_class_of err = LookupError) \<and>
   (''Zond'', [(''Earth'', [AccelerationSettings central_gravity])]) \<in>
     set [(''Probe'', [(''Earth'', [AccelerationSettings aerodynamic])]),
          (''Zond'', [(''Earth'', [AccelerationSettings central_gravity])])] \<and>
   entryNameAbsent exampleBodyMap exampleCentralBodies
     (''Zond'', [(''Earth'', [AccelerationSettings central_gravity])]) \<and>
   inIterationOrder
     [(''Probe'', [(''Earth'', [AccelerationSettings aerodynamic])]),
      (''Zond'', [(''Earth'', [AccelerationSettings central_gravity])])] \<and>
   (\<forall>order.
      createAccelerationModelsMap order exampleEnvironment exampleBodyMap
        [(''Probe'', [(''Earth'', [AccelerationSettings aerodynamic])]),
         (''Zond'', [(''Earth'', [AccelerationSettings central_gravity])])]
        exampleCentralBodies =
        (Inl (UndergoingBodyNotFound ''Zond''),
         \<lparr>bodies = exampleBodies(1 := (exampleBodies 1)\<lparr>flightConditions := Some 0\<rparr>),
          flightConditionsObjects = [(1, 0, ''Probe'', ''Earth'')]\<rparr>)) \<and>
   error_class_of (UndergoingBodyNotFound ''Zond'') = LookupError"
proof -
  have mem1: "(''Apollo'', [(''Earth'', [AccelerationSettings central_gravity])]) \<in>
      set [(''Apollo'', [(''Earth'', [AccelerationSettings central_gravity])]),
           (''Probe'', [(''Earth'', [AccelerationSettings aerodynamic])])]"
    by simp
  have absent1: "entryNameAbsent exampleBodyMap exampleCentralBodies
      (''Apollo'', [(''Earth'', [AccelerationSettings central_gravity])])"
    by (simp add: entryNameAbsent_def example_defs)
  have sorted1: "inIterationOrder
      [(''Apollo'', [(''Earth'', [AccelerationSettings central_gravity])]),
       (''Probe'', [(''Earth'', [AccelerationSettings aerodynamic])])]"
    by (simp add: inIterationOrder_def)
  have apollo: "exampleBodyMap ''Apollo'' = None"
    by (simp add: example_defs)
  have run1: "\<exists>err. createAccelerationModelsMap order exampleEnvironment exampleBodyMap
      [(''Apollo'', [(''Earth'', [AccelerationSettings central_gravity])]),
       (''Probe'', [(''Earth'', [AccelerationSettings aerodynamic])])]
      exampleCentralBodies = (Inl err, exampleEnvironment) \<and>
    error_class_of err = LookupError" for order
  proof -
    have reached: "[(''Apollo'', [(''Earth'', [AccelerationSettings central_gravity])]),
        (''Probe'', [(''Earth'', [AccelerationSettings aerodynamic])])] =
        (''Apollo'', [(''Earth'', [AccelerationSettings central_gravity])]) #
        [(''Probe'', [(''Earth'', [AccelerationSettings aerodynamic])])] \<and>
        (exampleBodyMap ''Apollo'' = None \<or>
         (\<exists>cn. exampleCentralBodies ''Apollo'' = Some cn \<and> \<not> isFrameInertial cn \<and>
               exampleBodyMap cn = None) \<or>
         (\<exists>en l more. [(''Earth'', [AccelerationSettings central_gravity])] =
               (en, l) # more \<and> exampleBodyMap en = None))"
      using apollo by simp
    note first = conjunct1 [OF conjunct2
        [OF absent_name_fails [OF mem1 absent1, of order exampleEnvironment]]]
    from first [rule_format, OF reached] show ?thesis .
  qed
  have mem2: "(''Zond'', [(''Earth'', [AccelerationSettings central_gravity])]) \<in>
      set [(''Probe'', [(''Earth'', [AccelerationSettings aerodynamic])]),
           (''Zond'', [(''Earth'', [AccelerationSettings central_gravity])])]"
    by simp
  have absent2: "entryNameAbsent exampleBodyMap exampleCentralBodies
      (''Zond'', [(''Earth'', [AccelerationSettings central_gravity])])"
    by (simp add: entryNameAbsent_def example_defs)
  have sorted2: "inIterationOrder
      [(''Probe'', [(''Earth'', [AccelerationSettings aerodynamic])]),
       (''Zond'', [(''Earth'', [AccelerationSettings central_gravity])])]"
    by (simp add: inIterationOrder_def)
  have zond: "exampleBodyMap ''Zond'' = None"
    by (simp add: example_defs)
  have error: "lookupErrorOfUndergoingBody exampleBodyMap exampleCentralBodies ''Zond'' =
      UndergoingBodyNotFound ''Zond''"
    by (simp add: lookupErrorOfUndergoingBody_def isFrameInertial_def example_defs)
  have before: "createAccelerationModelsMap order exampleEnvironment exampleBodyMap
      [(''Probe'', [(''Earth'', [AccelerationSettings aerodynamic])])]
      exampleCentralBodies =
      (Inr [(''Probe'', [(''Earth'',
               [Aerodynamic (AerodynamicAcceleration
                  (AerodynamicCoefficientInterface True True) 0 0 1
                  (AerodynamicCoefficientInterface True True) True)])])],
       \<lparr>bodies = exampleBodies(1 := (exampleBodies 1)\<lparr>flightConditions := Some 0\<rparr>),
        flightConditionsObjects = [(1, 0, ''Probe'', ''Earth'')]\<rparr>)" for order
    by (simp add: createAccelerationModelsMap_def createAccelerationModel_def
        createAerodynamicAcceleratioModel_def createFlightConditions_def
        setFlightConditions_def isFrameInertial_def push_back_at_def example_defs)
  have run2: "createAccelerationModelsMap order exampleEnvironment exampleBodyMap
      [(''Probe'', [(''Earth'', [AccelerationSettings aerodynamic])]),
       (''Zond'', [(''Earth'', [AccelerationSettings central_gravity])])]
      exampleCentralBodies =
      (Inl (UndergoingBodyNotFound ''Zond''),
       \<lparr>bodies = exampleBodies(1 := (exampleBodies 1)\<lparr>flightConditions := Some 0\<rparr>),
        flightConditionsObjects = [(1, 0, ''Probe'', ''Earth'')]\<rparr>)" for order
  proof -
    have split: "[(''Probe'', [(''Earth'', [AccelerationSettings aerodynamic])]),
        (''Zond'', [(''Earth'', [AccelerationSettings central_gravity])])] =
        [(''Probe'', [(''Earth'', [AccelerationSettings aerodynamic])])] @
        (''Zond'', [(''Earth'', [AccelerationSettings central_gravity])]) # []"
      by simp
    from split zond have reached:
      "[(''Probe'', [(''Earth'', [AccelerationSettings aerodynamic])]),
        (''Zond'', [(''Earth'', [AccelerationSettings central_gravity])])] =
        [(''Probe'', [(''Earth'', [AccelerationSettings aerodynamic])])] @
        (''Zond'', [(''Earth'', [AccelerationSettings central_gravity])]) # [] \<and>
        (exampleBodyMap ''Zond'' = None \<or>
         (\<exists>cn. exampleCentralBodies ''Zond'' = Some cn \<and> \<not> isFrameInertial cn \<and>
               exampleBodyMap cn = None))"
      by simp
    note later = conjunct1 [OF conjunct2 [OF conjunct2
        [OF absent_name_fails [OF mem2 absent2, of order exampleEnvironment]]]]
    from conjunct1 [OF later [rule_format, OF reached]]
    show ?thesis
      unfolding before error by simp
  qed
  have kind: "error_class_of (UndergoingBodyNotFound ''Zond'') = LookupError"
    by simp
  from run1 have all1: "\<forall>order. \<exists>err.
      createAccelerationModelsMap order exampleEnvironment exampleBodyMap
        [(''Apollo'', [(''Earth'', [AccelerationSettings central_gravity])]),
         (''Probe'', [(''Earth'', [AccelerationSettings aerodynamic])])]
        exampleCentralBodies = (Inl err, exampleEnvironment) \<and>
      error_class_of err = LookupError"
    by (rule allI)
  from run2 have all2: "\<forall>order.
      createAccelerationModelsMap order exampleEnvironment exampleBodyMap
        [(''Probe'', [(''Earth'', [AccelerationSettings aerodynamic])]),
         (''Zond'', [(''Earth'', [AccelerationSettings central_gravity])])]
        exampleCentralBodies =
        (Inl (UndergoingBodyNotFound ''Zond''),
         \<lparr>bodies = exampleBodies(1 := (exampleBodies 1)\<lparr>flightConditions := Some 0\<rparr>),
          flightConditionsObjects = [(1, 0, ''Probe'', ''Earth'')]\<rparr>)"
    by (rule allI)
  show ?thesis
    by (rule conjI [OF mem1 conjI [OF absent1 conjI [OF sorted1 conjI [OF all1
        conjI [OF mem2 conjI [OF absent2 conjI [OF sorted2 conjI [OF all2 kind]]]]]]]])
qed

subsection \<open>The order of aerodynamic and thrust entries\<close>

lemma settingsOf_assign_at:
  "settingsOf (assign_at k1 k2 v m) a b =
     (if a = k1 \<and> b = k2 then Some v else settingsOf m a b)"
  by (simp add: settingsOf_def assign_at_def update_conv' split: option.splits)

lemma orderedAccelerationList_error:
  "orderedAccelerationList l = Inl err \<Longrightarrow> err = MultipleAerodynamicAndThrust"
  by (simp add: orderedAccelerationList_def split: if_splits)

lemma orderBody2IteratorLoop_other:
  "orderBody2IteratorLoop un forBody acc = Inr acc' \<Longrightarrow>
   a \<noteq> un \<or> b \<notin> fst ` set forBody \<Longrightarrow> settingsOf acc' a b = settingsOf acc a b"
proof (induction forBody arbitrary: acc)
  case Nil
  then show ?case by simp
next
  case (Cons entry forBody)
  obtain en l where entry: "entry = (en, l)" by (cases entry)
  from Cons.prems(1) entry obtain ordered where
    ordered: "orderedAccelerationList l = Inr ordered"
    and rest: "orderBody2IteratorLoop un forBody (assign_at un en ordered acc) = Inr acc'"
    by (auto split: sum.splits)
  from Cons.prems(2) entry have "a \<noteq> un \<or> b \<notin> fst ` set forBody" and "a \<noteq> un \<or> b \<noteq> en"
    by auto
  with Cons.IH [OF rest] show ?case by (auto simp add: settingsOf_assign_at)
qed

lemma orderBody2IteratorLoop_entry:
  "orderBody2IteratorLoop un forBody acc = Inr acc' \<Longrightarrow> (en, l) \<in> set forBody \<Longrightarrow>
   distinct (map fst forBody) \<Longrightarrow>
   \<exists>ordered. orderedAccelerationList l = Inr ordered \<and> settingsOf acc' un en = Some ordered"
proof (induction forBody arbitrary: acc)
  case Nil
  then show ?case by simp
next
  case (Cons entry forBody)
  obtain en' l' where entry: "entry = (en', l')" by (cases entry)
  from Cons.prems(1) entry obtain ordered where
    ordered: "orderedAccelerationList l' = Inr ordered"
    and rest: "orderBody2IteratorLoop un forBody (assign_at un en' ordered acc) = Inr acc'"
    by (auto split: sum.splits)
  show ?case
  proof (cases "(en, l) = (en', l')")
    case True
    with Cons.prems(3) entry have "en \<notin> fst ` set forBody" by auto
    with orderBody2IteratorLoop_other [OF rest, of un en] True ordered show ?thesis
      by (simp add: settingsOf_assign_at)
  next
    case False
    with Cons.prems(2) entry have "(en, l) \<in> set forBody" by auto
    moreover from Cons.prems(3) have "distinct (map fst forBody)" by simp
    ultimately show ?thesis using Cons.IH [OF rest] by blast
  qed
qed

lemma orderBody2IteratorLoop_fails:
  "(en, l) \<in> set forBody \<Longrightarrow> orderedAccelerationList l = Inl err \<Longrightarrow>
   orderBody2IteratorLoop un forBody acc = Inl MultipleAerodynamicAndThrust"
proof (induction forBody arbitrary: acc)
  case Nil
  then show ?case by simp
next
  case (Cons entry forBody)
  obtain en' l' where entry: "entry = (en', l')" by (cases entry)
  show ?case
  proof (cases "orderedAccelerationList l'")
    case (Inl err')
    with entry orderedAccelerationList_error [OF Inl] show ?thesis by simp
  next
    case (Inr ordered)
    with Cons.prems entry have "(en, l) \<in> set forBody" by auto
    from Cons.IH [OF this Cons.prems(2)] entry Inr show ?thesis by simp
  qed
qed

lemma orderBody2IteratorLoop_error:
  "orderBody2IteratorLoop un forBody acc = Inl err \<Longrightarrow> err = MultipleAerodynamicAndThrust"
proof (induction forBody arbitrary: acc)
  case Nil
  then show ?case by simp
next
  case (Cons entry forBody)
  obtain en l where entry: "entry = (en, l)" by (cases entry)
  show ?case
  proof (cases "orderedAccelerationList l")
    case (Inl err')
    with Cons.prems entry orderedAccelerationList_error [OF Inl] show ?thesis by simp
  next
    case (Inr ordered)
    with Cons.prems entry Cons.IH show ?thesis by simp
  qed
qed

lemma orderBodyIteratorLoop_other:
  "orderBodyIteratorLoop selected acc = Inr acc' \<Longrightarrow> a \<notin> fst ` set selected \<Longrightarrow>
   settingsOf acc' a b = settingsOf acc a b"
proof (induction selected arbitrary: acc)
  case Nil
  then show ?case by simp
next
  case (Cons entry selected)
  obtain un forBody where entry: "entry = (un, forBody)" by (cases entry)
  from Cons.prems(1) entry obtain acc1 where
    turn: "orderBody2IteratorLoop un forBody acc = Inr acc1"
    and rest: "orderBodyIteratorLoop selected acc1 = Inr acc'"
    by (auto split: sum.splits)
  from Cons.prems(2) entry have "a \<noteq> un" and "a \<notin> fst ` set selected" by auto
  with Cons.IH [OF rest] orderBody2IteratorLoop_other [OF turn, of a b] show ?case by simp
qed

lemma orderBodyIteratorLoop_entry:
  "orderBodyIteratorLoop selected acc = Inr acc' \<Longrightarrow> (un, forBody) \<in> set selected \<Longrightarrow>
   (en, l) \<in> set forBody \<Longrightarrow> distinct (map fst selected) \<Longrightarrow>
   distinct (map fst forBody) \<Longrightarrow>
   \<exists>ordered. orderedAccelerationList l = Inr ordered \<and> settingsOf acc' un en = Some ordered"
proof (induction selected arbitrary: acc)
  case Nil
  then show ?case by simp
next
  case (Cons entry selected)
  obtain un' forBody' where entry: "entry = (un', forBody')" by (cases entry)
  from Cons.prems(1) entry obtain acc1 where
    turn: "orderBody2IteratorLoop un' forBody' acc = Inr acc1"
    and rest: "orderBodyIteratorLoop selected acc1 = Inr acc'"
    by (auto split: sum.splits)
  show ?case
  proof (cases "(un, forBody) = (un', forBody')")
    case True
    with Cons.prems(4) entry have "un \<notin> fst ` set selected" by auto
    from orderBodyIteratorLoop_other [OF rest this, of en]
      orderBody2IteratorLoop_entry [OF turn, of en l] True Cons.prems(3) Cons.prems(5)
    show ?thesis by simp
  next
    case False
    with Cons.prems(2) entry have "(un, forBody) \<in> set selected" by auto
    moreover from Cons.prems(4) have "distinct (map fst selected)" by simp
    ultimately show ?thesis using Cons.IH [OF rest _ Cons.prems(3) _ Cons.prems(5)] by blast
  qed
qed

lemma orderBodyIteratorLoop_fails:
  "(un, forBody) \<in> set selected \<Longrightarrow> (en, l) \<in> set forBody \<Longrightarrow>
   orderedAccelerationList l = Inl err \<Longrightarrow>
   orderBodyIteratorLoop selected acc = Inl MultipleAerodynamicAndThrust"
proof (induction selected arbitrary: acc)
  case Nil
  then show ?case by simp
next
  case (Cons entry selected)
  obtain un' forBody' where entry: "entry = (un', forBody')" by (cases entry)
  show ?case
  proof (cases "orderBody2IteratorLoop un' forBody' acc")
    case (Inl err')
    with entry orderBody2IteratorLoop_error [OF Inl] show ?thesis by simp
  next
    case (Inr acc1)
    have "(un, forBody) \<noteq> (un', forBody')"
      using orderBody2IteratorLoop_fails [OF Cons.prems(2) Cons.prems(3), of un' acc] Inr
      by auto
    with Cons.prems(1) entry have "(un, forBody) \<in> set selected" by auto
    from Cons.IH [OF this Cons.prems(2) Cons.prems(3)] entry Inr show ?thesis by simp
  qed
qed

lemma orderedAccelerationList_returns:
  assumes "\<not> severalAerodynamicAfterThrust l"
  shows "\<exists>ordered. orderedAccelerationList l = Inr ordered"
proof (cases "aerodynamicAfterThrust l")
  case True
  with assms have "\<not> length (aerodynamicAccelerationIndex l) > 1"
    by (simp add: severalAerodynamicAfterThrust_def)
  moreover from True have "length (aerodynamicAccelerationIndex l) > 0"
    by (simp add: aerodynamicAfterThrust_def)
  ultimately have "length (aerodynamicAccelerationIndex l) = 1" by arith
  with True show ?thesis
    by (simp add: orderedAccelerationList_def aerodynamicAfterThrust_def)
next
  case False
  then show ?thesis
    by (auto simp add: orderedAccelerationList_def aerodynamicAfterThrust_def)
qed

lemma orderedAccelerationList_throws:
  "severalAerodynamicAfterThrust l \<Longrightarrow>
   orderedAccelerationList l = Inl MultipleAerodynamicAndThrust"
  by (simp add: orderedAccelerationList_def severalAerodynamicAfterThrust_def
      aerodynamicAfterThrust_def)

lemma orderBody2IteratorLoop_returns:
  "\<forall>pair \<in> set forBody. \<not> severalAerodynamicAfterThrust (snd pair) \<Longrightarrow>
   \<exists>acc'. orderBody2IteratorLoop un forBody acc = Inr acc'"
proof (induction forBody arbitrary: acc)
  case Nil
  then show ?case by simp
next
  case (Cons entry forBody)
  obtain en l where entry: "entry = (en, l)" by (cases entry)
  from Cons.prems entry have "\<not> severalAerodynamicAfterThrust l" by simp
  from orderedAccelerationList_returns [OF this] obtain ordered where
    ordered: "orderedAccelerationList l = Inr ordered" ..
  from Cons.prems have "\<forall>pair \<in> set forBody. \<not> severalAerodynamicAfterThrust (snd pair)"
    by simp
  from Cons.IH [OF this, of "assign_at un en ordered acc"] entry ordered
  show ?case by simp
qed

lemma orderBodyIteratorLoop_returns:
  "everySequenceOrderable selected \<Longrightarrow> \<exists>acc'. orderBodyIteratorLoop selected acc = Inr acc'"
proof (induction selected arbitrary: acc)
  case Nil
  then show ?case by simp
next
  case (Cons entry selected)
  obtain un forBody where entry: "entry = (un, forBody)" by (cases entry)
  from Cons.prems entry
  have "\<forall>pair \<in> set forBody. \<not> severalAerodynamicAfterThrust (snd pair)"
    by (simp add: everySequenceOrderable_def list_all_iff)
  from orderBody2IteratorLoop_returns [OF this, of un acc] obtain acc1 where
    turn: "orderBody2IteratorLoop un forBody acc = Inr acc1" ..
  from Cons.prems have "everySequenceOrderable selected"
    by (simp add: everySequenceOrderable_def)
  from Cons.IH [OF this, of acc1] entry turn show ?case by simp
qed

lemma orderBodyIteratorLoop_throws:
  assumes "\<not> everySequenceOrderable selected"
  shows "orderBodyIteratorLoop selected acc = Inl MultipleAerodynamicAndThrust"
proof -
  from assms obtain entry pair where mem: "entry \<in> set selected" "pair \<in> set (snd entry)"
    and several: "severalAerodynamicAfterThrust (snd pair)"
    by (auto simp add: everySequenceOrderable_def list_all_iff)
  from mem have "(fst entry, snd entry) \<in> set selected" "(fst pair, snd pair) \<in> set (snd entry)"
    by simp_all
  from orderBodyIteratorLoop_fails [OF this orderedAccelerationList_throws [OF several]]
  show ?thesis .
qed

lemma thrust_request_fails:
  "accelerationType s = thrust_acceleration \<Longrightarrow>
   createAccelerationModel order env u e s un en c cn =
     (Inl (AccelerationModelNotRecognized thrust_acceleration en un), env)"
  by (simp add: createAccelerationModel_def)

lemma run_reaches_thrust_request:
  assumes "accelerationType s = thrust_acceleration"
  shows "createAccelerationModelsMap order env bodyMap
      (before @ (un, fbBefore @ (en, lBefore @ s # lAfter) # fbAfter) # after)
      centralBodies =
      (case createAccelerationModelsMap order env bodyMap
              (before @ [(un, fbBefore @ [(en, lBefore)])]) centralBodies of
         (Inl err, env1) \<Rightarrow> (Inl err, env1)
       | (Inr m, env1) \<Rightarrow>
           (Inl (AccelerationModelNotRecognized thrust_acceleration en un), env1))"
proof -
  obtain r env1 where prefix:
    "bodyIteratorLoop order env bodyMap centralBodies
       (before @ [(un, fbBefore @ [(en, lBefore)])]) [] = (r, env1)"
    by (cases "bodyIteratorLoop order env bodyMap centralBodies
       (before @ [(un, fbBefore @ [(en, lBefore)])]) []")
  show ?thesis
  proof (cases r)
    case (Inl err)
    with prefix bodyIteratorLoop_prefix_fails [OF prefix [unfolded Inl],
        where ys = "s # lAfter" and fbAfter = fbAfter and after = after]
    show ?thesis by (simp add: createAccelerationModelsMap_def)
  next
    case (Inr m)
    from bodyIteratorLoop_entry_fails [OF prefix [unfolded Inr], where s = s
        and lAfter = lAfter and fbAfter = fbAfter and after = after]
    obtain u e cn where build: "\<And>err env2.
        createAccelerationModel order env1 u e s un en
          (if isFrameInertial cn then None else bodyMap cn) cn = (Inl err, env2) \<Longrightarrow>
        bodyIteratorLoop order env bodyMap centralBodies
          (before @ (un, fbBefore @ (en, lBefore @ s # lAfter) # fbAfter) # after) [] =
          (Inl err, env2)"
      by auto
    from build [OF thrust_request_fails [OF assms]] prefix Inr
    show ?thesis by (simp add: createAccelerationModelsMap_def)
  qed
qed

text \<open>
  Claim C2 as stated: the assembler reorders the sequence of a pair before building, so
  that the input [thrust, aerodynamic] is built in the order [aerodynamic, thrust]. It
  does not: \<^verbatim>\<open>createAccelerationModelsMap\<close> builds the thrust entry first, which raises
  "acceleration model not recognized" and leaves the probe without flight conditions;
  built in the order [aerodynamic, thrust], the aerodynamic model is constructed first
  and the probe has flight conditions when the thrust entry raises. The two runs end
  differently, whichever way arguments are evaluated.
\<close>

theorem assembler_keeps_order_counterexample:
  "createAccelerationModelsMap left_to_right exampleEnvironment exampleBodyMap
     [(''Probe'', [(''Earth'', [AccelerationSettings thrust_acceleration,
                                AccelerationSettings aerodynamic])])]
     exampleCentralBodies =
     (Inl (AccelerationModelNotRecognized thrust_acceleration ''Earth'' ''Probe''),
      exampleEnvironment) \<and>
   createAccelerationModelsMap left_to_right exampleEnvironment exampleBodyMap
     [(''Probe'', [(''Earth'', [AccelerationSettings aerodynamic,
                                AccelerationSettings thrust_acceleration])])]
     exampleCentralBodies =
     (Inl (AccelerationModelNotRecognized thrust_acceleration ''Earth'' ''Probe''),
      \<lparr>bodies = exampleBodies(1 := (exampleBodies 1)\<lparr>flightConditions := Some 0\<rparr>),
       flightConditionsObjects = [(1, 0, ''Probe'', ''Earth'')]\<rparr>) \<and>
   createAccelerationModelsMap right_to_left exampleEnvironment exampleBodyMap
     [(''Probe'', [(''Earth'', [AccelerationSettings thrust_acceleration,
                                AccelerationSettings aerodynamic])])]
     exampleCentralBodies =
     (Inl (AccelerationModelNotRecognized thrust_acceleration ''Earth'' ''Probe''),
      exampleEnvironment) \<and>
   createAccelerationModelsMap right_to_left exampleEnvironment exampleBodyMap
     [(''Probe'', [(''Earth'', [AccelerationSettings aerodynamic,
                                AccelerationSettings thrust_acceleration])])]
     exampleCentralBodies =
     (Inl (AccelerationModelNotRecognized thrust_acceleration ''Earth'' ''Probe''),
      \<lparr>bodies = exampleBodies(1 := (exampleBodies 1)\<lparr>flightConditions := Some 0\<rparr>),
       flightConditionsObjects = [(1, 0, ''Probe'', ''Earth'')]\<rparr>) \<and>
   flightConditionsObjects exampleEnvironment = []"
  by (simp add: createAccelerationModelsMap_def createAccelerationModel_def
      createAerodynamicAcceleratioModel_def createFlightConditions_def
      setFlightConditions_def isFrameInertial_def push_back_at_def example_defs)

text \<open>
  Claim C2 as amended: the reordering is what \<^verbatim>\<open>orderSelectedAccelerationMap\<close> does,
  which \<^verbatim>\<open>createAccelerationModelsMap\<close> does not call. Take a map with one entry per
  name and the sequence of a pair with aerodynamic and thrust entries, the last
  aerodynamic index exceeding the first thrust index. If no sequence of the map has
  more than one aerodynamic entry in that situation, \<^verbatim>\<open>orderSelectedAccelerationMap\<close>
  returns a map, and in it the sequence of the pair is the given one with its aerodynamic
  entry and its last thrust entry swapped (so [thrust, aerodynamic] becomes
  [aerodynamic, thrust]). If some sequence of the map has more than one, and so if this
  one has, the function fails with a configuration error. \<^verbatim>\<open>createAccelerationModelsMap\<close>
  builds the entries of a sequence in the order given: a thrust entry ends the run with
  "acceleration model not recognized" as soon as the entries before it have been built,
  and the entries after it, aerodynamic ones among them, are not built.
\<close>

theorem orderSelectedAccelerationMap_swaps_or_fails:
  assumes "(un, forBody) \<in> set selected" and "(en, l) \<in> set forBody"
    and "distinct (map fst selected)" and "distinct (map fst forBody)"
    and "aerodynamicAfterThrust l"
  shows "(length (aerodynamicAccelerationIndex l) = 1 \<longrightarrow>
            orderedAccelerationList l =
              Inr (iter_swap l (hd (aerodynamicAccelerationIndex l))
                     (last (thrustAccelerationIndices l))) \<and>
            (\<forall>ordered. orderSelectedAccelerationMap selected = Inr ordered \<longrightarrow>
               settingsOf ordered un en =
                 Some (iter_swap l (hd (aerodynamicAccelerationIndex l))
                         (last (thrustAccelerationIndices l))))) \<and>
         (everySequenceOrderable selected \<longrightarrow>
            length (aerodynamicAccelerationIndex l) = 1 \<and>
            (\<exists>ordered. orderSelectedAccelerationMap selected = Inr ordered \<and>
               settingsOf ordered un en =
                 Some (iter_swap l (hd (aerodynamicAccelerationIndex l))
                         (last (thrustAccelerationIndices l))))) \<and>
         (\<not> everySequenceOrderable selected \<longrightarrow>
            orderSelectedAccelerationMap selected = Inl MultipleAerodynamicAndThrust) \<and>
         (length (aerodynamicAccelerationIndex l) > 1 \<longrightarrow>
            orderSelectedAccelerationMap selected = Inl MultipleAerodynamicAndThrust \<and>
            error_class_of MultipleAerodynamicAndThrust = ConfigurationError) \<and>
         (\<forall>(env :: 'd::plus environment) bodyMap centralBodies s' un' en' before fbBefore
             lBefore lAfter fbAfter after.
            accelerationType s' = thrust_acceleration \<longrightarrow>
            createAccelerationModelsMap order env bodyMap
              (before @ (un', fbBefore @ (en', lBefore @ s' # lAfter) # fbAfter) # after)
              centralBodies =
              (case createAccelerationModelsMap order env bodyMap
                      (before @ [(un', fbBefore @ [(en', lBefore)])]) centralBodies of
                 (Inl err, env1) \<Rightarrow> (Inl err, env1)
               | (Inr m, env1) \<Rightarrow>
                   (Inl (AccelerationModelNotRecognized thrust_acceleration en' un'),
                    env1)))"
proof -
  have swap: "orderedAccelerationList l =
      Inr (iter_swap l (hd (aerodynamicAccelerationIndex l))
             (last (thrustAccelerationIndices l)))"
    if "length (aerodynamicAccelerationIndex l) = 1"
    using that assms(5) by (simp add: orderedAccelerationList_def aerodynamicAfterThrust_def)
  have entry: "settingsOf ordered un en =
      Some (iter_swap l (hd (aerodynamicAccelerationIndex l))
              (last (thrustAccelerationIndices l)))"
    if one: "length (aerodynamicAccelerationIndex l) = 1"
      and ret: "orderSelectedAccelerationMap selected = Inr ordered" for ordered
  proof -
    from ret have "orderBodyIteratorLoop selected [] = Inr ordered"
      by (simp add: orderSelectedAccelerationMap_def)
    from orderBodyIteratorLoop_entry [OF this assms(1) assms(2) assms(3) assms(4)]
      swap [OF one]
    show ?thesis by simp
  qed
  have first: "length (aerodynamicAccelerationIndex l) = 1 \<longrightarrow>
      orderedAccelerationList l =
        Inr (iter_swap l (hd (aerodynamicAccelerationIndex l))
               (last (thrustAccelerationIndices l))) \<and>
      (\<forall>ordered. orderSelectedAccelerationMap selected = Inr ordered \<longrightarrow>
         settingsOf ordered un en =
           Some (iter_swap l (hd (aerodynamicAccelerationIndex l))
                   (last (thrustAccelerationIndices l))))"
    using swap entry by blast
  have returns: "everySequenceOrderable selected \<longrightarrow>
      length (aerodynamicAccelerationIndex l) = 1 \<and>
      (\<exists>ordered. orderSelectedAccelerationMap selected = Inr ordered \<and>
         settingsOf ordered un en =
           Some (iter_swap l (hd (aerodynamicAccelerationIndex l))
                   (last (thrustAccelerationIndices l))))"
  proof
    assume orderable: "everySequenceOrderable selected"
    with assms(1) assms(2) have "\<not> severalAerodynamicAfterThrust l"
      by (force simp add: everySequenceOrderable_def list_all_iff)
    with assms(5) have one: "length (aerodynamicAccelerationIndex l) = 1"
      by (cases "aerodynamicAccelerationIndex l")
        (auto simp add: severalAerodynamicAfterThrust_def aerodynamicAfterThrust_def)
    from orderBodyIteratorLoop_returns [OF orderable, of "[]"] obtain ordered where
      ret: "orderSelectedAccelerationMap selected = Inr ordered"
      by (auto simp add: orderSelectedAccelerationMap_def)
    from one ret entry [OF one ret]
    show "length (aerodynamicAccelerationIndex l) = 1 \<and>
      (\<exists>ordered. orderSelectedAccelerationMap selected = Inr ordered \<and>
         settingsOf ordered un en =
           Some (iter_swap l (hd (aerodynamicAccelerationIndex l))
                   (last (thrustAccelerationIndices l))))"
      by blast
  qed
  have throws: "\<not> everySequenceOrderable selected \<longrightarrow>
      orderSelectedAccelerationMap selected = Inl MultipleAerodynamicAndThrust"
    using orderBodyIteratorLoop_throws [of selected "[]"]
    by (simp add: orderSelectedAccelerationMap_def)
  have several: "length (aerodynamicAccelerationIndex l) > 1 \<longrightarrow>
      orderSelectedAccelerationMap selected = Inl MultipleAerodynamicAndThrust \<and>
      error_class_of MultipleAerodynamicAndThrust = ConfigurationError"
  proof
    assume "length (aerodynamicAccelerationIndex l) > 1"
    with assms(5) have "orderedAccelerationList l = Inl MultipleAerodynamicAndThrust"
      by (simp add: orderedAccelerationList_def aerodynamicAfterThrust_def)
    from orderBodyIteratorLoop_fails [OF assms(1) assms(2) this]
    show "orderSelectedAccelerationMap selected = Inl MultipleAerodynamicAndThrust \<and>
      error_class_of MultipleAerodynamicAndThrust = ConfigurationError"
      by (simp add: orderSelectedAccelerationMap_def)
  qed
  have assembler: "\<forall>(env :: 'd environment) bodyMap centralBodies s' un' en' before
      fbBefore lBefore lAfter fbAfter after.
      accelerationType s' = thrust_acceleration \<longrightarrow>
      createAccelerationModelsMap order env bodyMap
        (before @ (un', fbBefore @ (en', lBefore @ s' # lAfter) # fbAfter) # after)
        centralBodies =
        (case createAccelerationModelsMap order env bodyMap
                (before @ [(un', fbBefore @ [(en', lBefore)])]) centralBodies of
           (Inl err, env1) \<Rightarrow> (Inl err, env1)
         | (Inr m, env1) \<Rightarrow>
             (Inl (AccelerationModelNotRecognized thrust_acceleration en' un'), env1))"
    by (intro allI impI) (rule run_reaches_thrust_request)
  show ?thesis
    by (rule conjI [OF first conjI [OF returns conjI [OF throws conjI [OF several
        assembler]]]])
qed

text \<open>
  The pair (Probe, Earth) with the sequence [thrust, aerodynamic], one aerodynamic entry
  after the thrust entry: the function returns a map that holds [aerodynamic, thrust]
  for the pair. With the sequence [thrust, aerodynamic, aerodynamic] it fails.
\<close>

theorem orderSelectedAccelerationMap_swaps_or_fails_witness:
  "aerodynamicAfterThrust
     [AccelerationSettings thrust_acceleration, AccelerationSettings aerodynamic] \<and>
   everySequenceOrderable
     [(''Probe'', [(''Earth'', [AccelerationSettings thrust_acceleration,
                                AccelerationSettings aerodynamic])])] \<and>
   (\<exists>ordered.
      orderSelectedAccelerationMap
        [(''Probe'', [(''Earth'', [AccelerationSettings thrust_acceleration,
                                   AccelerationSettings aerodynamic])])] = Inr ordered \<and>
      settingsOf ordered ''Probe'' ''Earth'' =
        Some [AccelerationSettings aerodynamic, AccelerationSettings thrust_acceleration]) \<and>
   aerodynamicAfterThrust
     [AccelerationSettings thrust_acceleration, AccelerationSettings aerodynamic,
      AccelerationSettings aerodynamic] \<and>
   orderSelectedAccelerationMap
     [(''Probe'', [(''Earth'', [AccelerationSettings thrust_acceleration,
                                AccelerationSettings aerodynamic,
                                AccelerationSettings aerodynamic])])] =
     Inl MultipleAerodynamicAndThrust"
proof -
  let ?l = "[AccelerationSettings thrust_acceleration, AccelerationSettings aerodynamic]"
  let ?forBody = "[(''Earth'', ?l)]"
  let ?selected = "[(''Probe'', ?forBody)]"
  let ?l2 = "[AccelerationSettings thrust_acceleration, AccelerationSettings aerodynamic,
      AccelerationSettings aerodynamic]"
  let ?forBody2 = "[(''Earth'', ?l2)]"
  let ?selected2 = "[(''Probe'', ?forBody2)]"
  have thrust: "thrustAccelerationIndices ?l = [0]"
    by (simp add: thrustAccelerationIndices_def upt_rec)
  have aero: "aerodynamicAccelerationIndex ?l = [1]"
    by (simp add: aerodynamicAccelerationIndex_def upt_rec)
  have mem1: "(''Probe'', ?forBody) \<in> set ?selected" by simp
  have mem2: "(''Earth'', ?l) \<in> set ?forBody" by simp
  have d1: "distinct (map fst ?selected)" by simp
  have d2: "distinct (map fst ?forBody)" by simp
  have situation: "aerodynamicAfterThrust ?l"
    unfolding aerodynamicAfterThrust_def thrust aero by simp
  have orderable: "everySequenceOrderable ?selected"
    using aero by (simp add: everySequenceOrderable_def severalAerodynamicAfterThrust_def)
  have swapped: "iter_swap ?l (hd (aerodynamicAccelerationIndex ?l))
      (last (thrustAccelerationIndices ?l)) =
      [AccelerationSettings aerodynamic, AccelerationSettings thrust_acceleration]"
    unfolding thrust aero by (simp add: iter_swap_def)
  note returns = conjunct1 [OF conjunct2
      [OF orderSelectedAccelerationMap_swaps_or_fails [OF mem1 mem2 d1 d2 situation,
          where ?'d = int and order = left_to_right]]]
  from conjunct2 [OF mp [OF returns orderable]]
  have run: "\<exists>ordered. orderSelectedAccelerationMap ?selected = Inr ordered \<and>
      settingsOf ordered ''Probe'' ''Earth'' =
        Some [AccelerationSettings aerodynamic, AccelerationSettings thrust_acceleration]"
    unfolding swapped .
  have thrust2: "thrustAccelerationIndices ?l2 = [0]"
    by (simp add: thrustAccelerationIndices_def upt_rec)
  have aero2: "aerodynamicAccelerationIndex ?l2 = [1, 2]"
    by (simp add: aerodynamicAccelerationIndex_def upt_rec)
  have mem3: "(''Probe'', ?forBody2) \<in> set ?selected2" by simp
  have mem4: "(''Earth'', ?l2) \<in> set ?forBody2" by simp
  have d3: "distinct (map fst ?selected2)" by simp
  have d4: "distinct (map fst ?forBody2)" by simp
  have situation2: "aerodynamicAfterThrust ?l2"
    unfolding aerodynamicAfterThrust_def thrust2 aero2 by simp
  have two: "length (aerodynamicAccelerationIndex ?l2) > 1"
    unfolding aero2 by simp
  note several = conjunct1 [OF conjunct2 [OF conjunct2 [OF conjunct2
      [OF orderSelectedAccelerationMap_swaps_or_fails [OF mem3 mem4 d3 d4 situation2,
          where ?'d = int and order = left_to_right]]]]]
  from conjunct1 [OF mp [OF several two]]
  have fails: "orderSelectedAccelerationMap ?selected2 = Inl MultipleAerodynamicAndThrust" .
  show ?thesis
    by (rule conjI [OF situation conjI [OF orderable conjI [OF run conjI [OF situation2
        fails]]]])
qed


end
